theory Spec2Isabelle
  imports Main "HOL-Library.AList"
begin

section \<open>Enumerations\<close>

text \<open>The enum \<open>GameState\<close> of engine/GameState.ts.\<close>

datatype GameState =
    WaitingForPlayers | ReadyToStart | PostingBlinds | DealingHoleCards | PreflopBetting
  | DealingFlop | FlopBetting | DealingTurn | TurnBetting | DealingRiver | RiverBetting
  | Showdown | HandComplete | GameOver

text \<open>
  The enums \<open>PlayerStatus\<close> and \<open>PlayerAction\<close> of models/Player.ts; the members of
  \<open>PlayerAction\<close> carry the prefix \<open>Act\<close>, since \<open>AllIn\<close> is a member of both.
\<close>

datatype PlayerStatus = Active | Folded | AllIn | SittingOut | Eliminated

datatype PlayerAction = ActFold | ActCheck | ActCall | ActBet | ActRaise | ActAllIn

type_synonym playerId = string

section \<open>Errors\<close>

text \<open>
  Every \<open>throw new Error(...)\<close> of the modelled TypeScript is a value of this type.
  A function that can throw returns \<open>error + 'a\<close>; a method that mutates its object
  before throwing returns the outcome together with the state it leaves behind.
\<close>

datatype error =
    ContributionMustBePositive    \<comment> \<open>Pot.addContribution: 'Contribution must be positive'\<close>
  | MissingRemainingContribution  \<comment> \<open>the non-null assertion of collectBets; unreachable\<close>
  | ExpectedFiveCards nat         \<comment> \<open>HandEvaluator.evaluateHand: 'Expected 5 cards, got n'\<close>
  | ExpectedSevenCards nat        \<comment> \<open>HandEvaluator.evaluateBest7CardHand: 'Expected 7 cards, got n'\<close>
  | NoCombination                 \<comment> \<open>the non-null assertion \<open>bestHand!\<close>; unreachable\<close>
  | CannotAddZeroOrNegativeChips  \<comment> \<open>Player.addChips\<close>
  | CannotRemoveZeroOrNegativeChips \<comment> \<open>Player.removeChips\<close>
  | CannotBet PlayerStatus        \<comment> \<open>Player.bet: 'Cannot bet: player is ...'\<close>
  | CannotBetAfterAlreadyBetting  \<comment> \<open>Player.bet\<close>
  | CannotDealFromEmptyDeck       \<comment> \<open>Deck.dealCard\<close>
  | CannotDealCards nat nat       \<comment> \<open>Deck.dealCards: 'Cannot deal n cards, only m remaining'\<close>
  | NeedAtLeastTwoPlayersToDeal   \<comment> \<open>Dealer.dealHoleCards\<close>
  | InsufficientCardsToEvaluate playerId \<comment> \<open>Dealer.determineWinners\<close>
  | InvalidStateTransition GameState GameState \<comment> \<open>HandManager.setState\<close>
  | CannotStartHandFromState GameState \<comment> \<open>HandManager.startHand\<close>
  | NeedAtLeastTwoPlayersToStartHand \<comment> \<open>HandManager.startHand\<close>
  | CannotDetermineBlindPlayers   \<comment> \<open>HandManager.postBlinds\<close>
  | CannotPerformShowdownFromState GameState \<comment> \<open>HandManager.performShowdown\<close>

section \<open>Pot ledger (engine/BettingStructure.ts)\<close>

text \<open>
  A JavaScript \<open>Map<string, number>\<close> is an association list in insertion order
  (\<open>AList.update\<close> overwrites in place and appends a new key at the end, as \<open>Map.set\<close>
  does); a \<open>Set<string>\<close> is a duplicate-free list in insertion order. In this section
  chip amounts are integers: whole chips, on which JavaScript's arithmetic is exact up to
  \<open>2 ^ 53\<close>. The code takes any \<open>number\<close>, though, and nothing on the betting path
  rounds an amount; the ledger on amounts that are not integers is modelled in the
  section on fractional amounts below.
\<close>

definition set_add :: "'a \<Rightarrow> 'a list \<Rightarrow> 'a list" where
  "set_add x s = (if x \<in> set s then s else s @ [x])"

definition new_Set :: "'a list \<Rightarrow> 'a list" where
  "new_Set xs = foldl (\<lambda>s x. set_add x s) [] xs"

record Pot =
  contributions :: "(playerId \<times> int) list"
  eligiblePlayerIds :: "playerId list"

definition new_Pot :: "playerId list \<Rightarrow> Pot" where
  "new_Pot eligiblePlayers =
     \<lparr>contributions = [], eligiblePlayerIds = new_Set eligiblePlayers\<rparr>"

definition addContribution :: "Pot \<Rightarrow> playerId \<Rightarrow> int \<Rightarrow> error + Pot" where
  "addContribution pot pid amount =
     (if amount \<le> 0 then Inl ContributionMustBePositive
      else
        let currentAmount = (case map_of (contributions pot) pid of None \<Rightarrow> 0 | Some a \<Rightarrow> a)
        in Inr (pot\<lparr>contributions := AList.update pid (currentAmount + amount) (contributions pot),
                    eligiblePlayerIds :=
                      (if pid \<notin> set (eligiblePlayerIds pot)
                       then eligiblePlayerIds pot @ [pid]
                       else eligiblePlayerIds pot)\<rparr>))"

definition pot_total :: "Pot \<Rightarrow> int" where
  "pot_total pot = sum_list (map snd (contributions pot))"

definition isPlayerEligible :: "Pot \<Rightarrow> playerId \<Rightarrow> bool" where
  "isPlayerEligible pot pid = (pid \<in> set (eligiblePlayerIds pot))"

definition removePlayerEligibility :: "Pot \<Rightarrow> playerId \<Rightarrow> Pot" where
  "removePlayerEligibility pot pid =
     pot\<lparr>eligiblePlayerIds := filter (\<lambda>q. q \<noteq> pid) (eligiblePlayerIds pot)\<rparr>"

record PotManager =
  mainPot :: Pot
  sidePots :: "Pot list"

definition new_PotManager :: PotManager where
  "new_PotManager = \<lparr>mainPot = new_Pot [], sidePots = []\<rparr>"

text \<open>
  The inner loop of \<open>collectBets\<close>: every contributing player pays \<open>contributionAmount\<close>
  into the new pot and has it taken off the remaining contribution.
\<close>

fun collectContributions ::
  "playerId list \<Rightarrow> int \<Rightarrow> Pot \<Rightarrow> (playerId \<times> int) list
     \<Rightarrow> error + (Pot \<times> (playerId \<times> int) list)" where
  "collectContributions [] contributionAmount pot remainingContributions =
     Inr (pot, remainingContributions)"
| "collectContributions (pid # rest) contributionAmount pot remainingContributions =
     (case addContribution pot pid contributionAmount of
        Inl e \<Rightarrow> Inl e
      | Inr pot' \<Rightarrow>
          (case map_of remainingContributions pid of
             None \<Rightarrow> Inl MissingRemainingContribution
           | Some remaining \<Rightarrow>
               collectContributions rest contributionAmount pot'
                 (AList.update pid (remaining - contributionAmount) remainingContributions)))"

text \<open>
  The loop over the bet levels, \<open>uniqueBetAmounts[i]\<close> for \<open>i = 0, 1, ...\<close>; the
  first argument is \<open>previousLevel\<close> (0 for the first level).
\<close>

fun collectLevels ::
  "int \<Rightarrow> int list \<Rightarrow> (playerId \<times> int) list \<Rightarrow> playerId list \<Rightarrow> PotManager
     \<Rightarrow> error + PotManager" where
  "collectLevels previousLevel [] remainingContributions foldedPlayers pm = Inr pm"
| "collectLevels previousLevel (currentLevel # levels) remainingContributions foldedPlayers pm =
     (let contributionAmount = currentLevel - previousLevel;
          contributingPlayers =
            map fst (filter (\<lambda>(pid, remaining). remaining \<ge> contributionAmount)
                       remainingContributions)
      in if contributingPlayers = []
         then collectLevels currentLevel levels remainingContributions foldedPlayers pm
         else
           let eligiblePlayers = filter (\<lambda>pid. pid \<notin> set foldedPlayers) contributingPlayers
           in case collectContributions contributingPlayers contributionAmount
                     (new_Pot eligiblePlayers) remainingContributions of
                Inl e \<Rightarrow> Inl e
              | Inr (pot, remainingContributions') \<Rightarrow>
                  let pot' = foldl removePlayerEligibility pot foldedPlayers;
                      pm' = (if pot_total (mainPot pm) = 0
                             then pm\<lparr>mainPot := pot'\<rparr>
                             else pm\<lparr>sidePots := sidePots pm @ [pot']\<rparr>)
                  in collectLevels currentLevel levels remainingContributions' foldedPlayers pm')"

text \<open>
  \<open>uniqueBetAmounts\<close>: the distinct strictly positive amounts, sorted ascending. The
  order in which \<open>new Set\<close> keeps the amounts is irrelevant, since they are sorted next.
\<close>

definition uniqueBetAmounts :: "(playerId \<times> int) list \<Rightarrow> int list" where
  "uniqueBetAmounts playerBets =
     sort (new_Set (filter (\<lambda>amt. amt > 0) (map snd playerBets)))"

definition collectBets ::
  "PotManager \<Rightarrow> (playerId \<times> int) list \<Rightarrow> playerId list \<Rightarrow> playerId list
     \<Rightarrow> error + PotManager" where
  "collectBets pm playerBets allInPlayers foldedPlayers =
     (if length playerBets = 0 then Inr pm
      else if length (uniqueBetAmounts playerBets) = 0 then Inr pm
      else collectLevels 0 (uniqueBetAmounts playerBets) playerBets foldedPlayers pm)"

definition getTotalPotAmount :: "PotManager \<Rightarrow> int" where
  "getTotalPotAmount pm = foldl (\<lambda>t sidePot. t + pot_total sidePot) (pot_total (mainPot pm)) (sidePots pm)"

text \<open>
  \<open>Math.floor(a / b)\<close> on integers is HOL's \<open>div\<close>, which rounds down. JavaScript's
  \<open>a % b\<close> truncates towards zero: the result has the sign of the dividend.
\<close>

definition js_rem :: "int \<Rightarrow> int \<Rightarrow> int" where
  "js_rem a b = sgn a * (\<bar>a\<bar> mod \<bar>b\<bar>)"

text \<open>\<open>winnings.get(id) ?? 0\<close>: what the winnings map credits to a player.\<close>

definition winningsOf :: "(playerId \<times> int) list \<Rightarrow> playerId \<Rightarrow> int" where
  "winningsOf winnings pid = (case map_of winnings pid of None \<Rightarrow> 0 | Some a \<Rightarrow> a)"

text \<open>The loop \<open>for (let i = 0; i < eligibleWinners.length; i++)\<close> of \<open>distributeSinglePot\<close>.\<close>

fun creditWinners ::
  "nat \<Rightarrow> playerId list \<Rightarrow> int \<Rightarrow> int \<Rightarrow> (playerId \<times> int) list \<Rightarrow> (playerId \<times> int) list" where
  "creditWinners i [] amountPerWinner remainder winnings = winnings"
| "creditWinners i (winner # rest) amountPerWinner remainder winnings =
     (let currentWinnings = (case map_of winnings winner of None \<Rightarrow> 0 | Some a \<Rightarrow> a);
          amount = (if i = 0 then amountPerWinner + remainder else amountPerWinner)
      in creditWinners (i + 1) rest amountPerWinner remainder
           (AList.update winner (currentWinnings + amount) winnings))"

definition distributeSinglePot ::
  "Pot \<Rightarrow> playerId list \<Rightarrow> (playerId \<times> int) list \<Rightarrow> (playerId \<times> int) list" where
  "distributeSinglePot pot winners winnings =
     (if pot_total pot = 0 then winnings
      else
        let eligibleWinners = filter (isPlayerEligible pot) winners
        in if length eligibleWinners = 0 then winnings
           else
             let amountPerWinner = pot_total pot div int (length eligibleWinners);
                 remainder = js_rem (pot_total pot) (int (length eligibleWinners))
             in creditWinners 0 eligibleWinners amountPerWinner remainder winnings)"

definition distributePots :: "PotManager \<Rightarrow> playerId list \<Rightarrow> (playerId \<times> int) list" where
  "distributePots pm winners =
     foldl (\<lambda>winnings sidePot. distributeSinglePot sidePot winners winnings)
       (distributeSinglePot (mainPot pm) winners []) (sidePots pm)"

section \<open>Cards (models/Card.ts)\<close>

datatype Suit = Spades | Hearts | Diamonds | Clubs

datatype Rank =
  Two | Three | Four | Five | Six | Seven | Eight | Nine | Ten | Jack | Queen | King | Ace

record Card =
  rank :: Rank
  suit :: Suit

fun RANK_VALUES :: "Rank \<Rightarrow> int" where
  "RANK_VALUES Two = 2"
| "RANK_VALUES Three = 3"
| "RANK_VALUES Four = 4"
| "RANK_VALUES Five = 5"
| "RANK_VALUES Six = 6"
| "RANK_VALUES Seven = 7"
| "RANK_VALUES Eight = 8"
| "RANK_VALUES Nine = 9"
| "RANK_VALUES Ten = 10"
| "RANK_VALUES Jack = 11"
| "RANK_VALUES Queen = 12"
| "RANK_VALUES King = 13"
| "RANK_VALUES Ace = 14"

text \<open>The getter \<open>Card.value\<close>.\<close>

definition card_value :: "Card \<Rightarrow> int" where
  "card_value c = RANK_VALUES (rank c)"

section \<open>Hand rankings (engine/HandRanking.ts)\<close>

text \<open>
  The numeric enum \<open>HandRank\<close>; \<open>Pair\<close> is written \<open>OnePair\<close>, the name \<open>Pair\<close>
  being HOL's pairing constructor. \<open>HandRank_value\<close> is the number of each member.
\<close>

datatype HandRank =
    HighCard | OnePair | TwoPair | ThreeOfAKind | Straight | Flush | FullHouse
  | FourOfAKind | StraightFlush | RoyalFlush

fun HandRank_value :: "HandRank \<Rightarrow> int" where
  "HandRank_value HighCard = 0"
| "HandRank_value OnePair = 1"
| "HandRank_value TwoPair = 2"
| "HandRank_value ThreeOfAKind = 3"
| "HandRank_value Straight = 4"
| "HandRank_value Flush = 5"
| "HandRank_value FullHouse = 6"
| "HandRank_value FourOfAKind = 7"
| "HandRank_value StraightFlush = 8"
| "HandRank_value RoyalFlush = 9"

text \<open>
  The class \<open>HandRanking\<close>; its field \<open>rank\<close> is \<open>handRank\<close> here, \<open>rank\<close> being
  the field of a card.
\<close>

record HandRanking =
  handRank :: HandRank
  cards :: "Card list"
  primaryValue :: int
  secondaryValue :: int
  kickers :: "int list"

text \<open>
  The constructor, with its default arguments \<open>secondaryValue = 0\<close> and
  \<open>kickers = []\<close> written out at each call.
\<close>

definition new_HandRanking ::
  "HandRank \<Rightarrow> Card list \<Rightarrow> int \<Rightarrow> int \<Rightarrow> int list \<Rightarrow> HandRanking" where
  "new_HandRanking r cs pv sv ks =
     \<lparr>handRank = r, cards = cs, primaryValue = pv, secondaryValue = sv, kickers = ks\<rparr>"

text \<open>\<open>kickers[i] ?? 0\<close>: reading past the end of the array gives \<open>undefined\<close>, hence 0.\<close>

definition kickerAt :: "int list \<Rightarrow> nat \<Rightarrow> int" where
  "kickerAt ks i = (if i < length ks then ks ! i else 0)"

text \<open>
  \<open>compareTo\<close>: the kicker loop runs \<open>i\<close> over \<open>0 ..< max(length, length)\<close> and
  returns at the first index where the two kickers differ.
\<close>

definition compareTo :: "HandRanking \<Rightarrow> HandRanking \<Rightarrow> int" where
  "compareTo this other =
     (if handRank this \<noteq> handRank other
      then HandRank_value (handRank this) - HandRank_value (handRank other)
      else if primaryValue this \<noteq> primaryValue other
      then primaryValue this - primaryValue other
      else if secondaryValue this \<noteq> secondaryValue other
      then secondaryValue this - secondaryValue other
      else
        (case find (\<lambda>i. kickerAt (kickers this) i \<noteq> kickerAt (kickers other) i)
                [0 ..< max (length (kickers this)) (length (kickers other))] of
           Some i \<Rightarrow> kickerAt (kickers this) i - kickerAt (kickers other) i
         | None \<Rightarrow> 0))"

section \<open>Hand evaluator (engine/HandEvaluator.ts)\<close>

text \<open>
  \<open>Array.prototype.sort\<close> is stable; with the comparator \<open>(a, b) => b - a\<close> on
  numbers, or \<open>b.value - a.value\<close> on cards, it is a stable sort on the negated key.
\<close>

definition sortDescending :: "int list \<Rightarrow> int list" where
  "sortDescending vs = sort_key (\<lambda>v. - v) vs"

definition sortCardsDescending :: "Card list \<Rightarrow> Card list" where
  "sortCardsDescending cs = sort_key (\<lambda>c. - card_value c) cs"

definition groupByRank :: "Card list \<Rightarrow> (int \<times> Card list) list" where
  "groupByRank cs =
     foldl (\<lambda>groups card.
              let existing = (case map_of groups (card_value card) of None \<Rightarrow> [] | Some g \<Rightarrow> g)
              in AList.update (card_value card) (existing @ [card]) groups) [] cs"

definition isFlush :: "Card list \<Rightarrow> bool" where
  "isFlush cs = (case cs of [] \<Rightarrow> True | c # _ \<Rightarrow> list_all (\<lambda>card. suit card = suit c) cs)"

text \<open>\<open>values.every((val, i) => i === 0 || val === values[i - 1] - 1)\<close>.\<close>

fun isConsecutive :: "int list \<Rightarrow> bool" where
  "isConsecutive (a # b # rest) = (b = a - 1 \<and> isConsecutive (b # rest))"
| "isConsecutive _ = True"

definition getStraightHighCard :: "Card list \<Rightarrow> int option" where
  "getStraightHighCard cs =
     (let vals = sortDescending (new_Set (map card_value cs))
      in if length vals \<noteq> 5 then None
         else if isConsecutive vals then Some (vals ! 0)
         else if vals ! 0 = 14 \<and> vals ! 1 = 5 \<and> vals ! 2 = 4 \<and> vals ! 3 = 3 \<and> vals ! 4 = 2
         then Some 5
         else None)"

definition checkStraightFlush :: "Card list \<Rightarrow> HandRanking option" where
  "checkStraightFlush cs =
     (case getStraightHighCard cs of
        Some straight \<Rightarrow>
          if isFlush cs then Some (new_HandRanking StraightFlush cs straight 0 []) else None
      | None \<Rightarrow> None)"

definition checkRoyalFlush :: "Card list \<Rightarrow> HandRanking option" where
  "checkRoyalFlush cs =
     (case checkStraightFlush cs of
        Some straightFlush \<Rightarrow>
          if primaryValue straightFlush = 14
          then Some (new_HandRanking RoyalFlush cs 14 0 []) else None
      | None \<Rightarrow> None)"

text \<open>\<open>cards.find(pred)?.value ?? 0\<close>.\<close>

definition findValueOr0 :: "(Card \<Rightarrow> bool) \<Rightarrow> Card list \<Rightarrow> int" where
  "findValueOr0 pred cs = (case find pred cs of Some c \<Rightarrow> card_value c | None \<Rightarrow> 0)"

definition checkFourOfAKind :: "Card list \<Rightarrow> HandRanking option" where
  "checkFourOfAKind cs =
     (case find (\<lambda>(r, groupCards). length groupCards = 4) (groupByRank cs) of
        Some (r, groupCards) \<Rightarrow>
          Some (new_HandRanking FourOfAKind cs r 0 [findValueOr0 (\<lambda>c. card_value c \<noteq> r) cs])
      | None \<Rightarrow> None)"

text \<open>
  The loop of \<open>checkFullHouse\<close> visits every group and keeps the last rank held three
  times and the last rank held twice.
\<close>

definition checkFullHouse :: "Card list \<Rightarrow> HandRanking option" where
  "checkFullHouse cs =
     (let (threeRank, pairRank) =
            foldl (\<lambda>(threeRank, pairRank) (r, groupCards).
                     if length groupCards = 3 then (Some r, pairRank)
                     else if length groupCards = 2 then (threeRank, Some r)
                     else (threeRank, pairRank))
              (None, None) (groupByRank cs)
      in case (threeRank, pairRank) of
           (Some t, Some p) \<Rightarrow> Some (new_HandRanking FullHouse cs t p [])
         | _ \<Rightarrow> None)"

text \<open>
  \<open>values[0]!\<close> and \<open>values.slice(1)\<close>: the checks are private and only ever receive
  the five sorted cards of \<open>evaluateHand\<close>, so the list of values is never empty; for
  the empty list the model takes 0 where JavaScript has \<open>undefined\<close>.
\<close>

definition firstOr0 :: "int list \<Rightarrow> int" where
  "firstOr0 vs = (case vs of [] \<Rightarrow> 0 | v # _ \<Rightarrow> v)"

definition checkFlush :: "Card list \<Rightarrow> HandRanking option" where
  "checkFlush cs =
     (if isFlush cs
      then let vals = sortDescending (map card_value cs)
           in Some (new_HandRanking Flush cs (firstOr0 vals) 0 (drop 1 vals))
      else None)"

definition checkStraight :: "Card list \<Rightarrow> HandRanking option" where
  "checkStraight cs =
     (case getStraightHighCard cs of
        Some highCard \<Rightarrow> Some (new_HandRanking Straight cs highCard 0 [])
      | None \<Rightarrow> None)"

definition kickersWithout :: "int \<Rightarrow> Card list \<Rightarrow> int list" where
  "kickersWithout r cs = sortDescending (map card_value (filter (\<lambda>c. card_value c \<noteq> r) cs))"

definition checkThreeOfAKind :: "Card list \<Rightarrow> HandRanking option" where
  "checkThreeOfAKind cs =
     (case find (\<lambda>(r, groupCards). length groupCards = 3) (groupByRank cs) of
        Some (r, groupCards) \<Rightarrow> Some (new_HandRanking ThreeOfAKind cs r 0 (kickersWithout r cs))
      | None \<Rightarrow> None)"

definition checkTwoPair :: "Card list \<Rightarrow> HandRanking option" where
  "checkTwoPair cs =
     (let pairs = map fst (filter (\<lambda>(r, groupCards). length groupCards = 2) (groupByRank cs))
      in if length pairs = 2
         then let sortedPairs = sortDescending pairs;
                  kicker = findValueOr0 (\<lambda>c. card_value c \<notin> set sortedPairs) cs
              in Some (new_HandRanking TwoPair cs (sortedPairs ! 0) (sortedPairs ! 1) [kicker])
         else None)"

definition checkPair :: "Card list \<Rightarrow> HandRanking option" where
  "checkPair cs =
     (case find (\<lambda>(r, groupCards). length groupCards = 2) (groupByRank cs) of
        Some (r, groupCards) \<Rightarrow> Some (new_HandRanking OnePair cs r 0 (kickersWithout r cs))
      | None \<Rightarrow> None)"

definition checkHighCard :: "Card list \<Rightarrow> HandRanking" where
  "checkHighCard cs =
     (let vals = sortDescending (map card_value cs)
      in new_HandRanking HighCard cs (firstOr0 vals) 0 (drop 1 vals))"

definition evaluateHand :: "Card list \<Rightarrow> error + HandRanking" where
  "evaluateHand cs =
     (if length cs \<noteq> 5 then Inl (ExpectedFiveCards (length cs))
      else
        let sortedCards = sortCardsDescending cs
        in case checkRoyalFlush sortedCards of Some h \<Rightarrow> Inr h | None \<Rightarrow>
          (case checkStraightFlush sortedCards of Some h \<Rightarrow> Inr h | None \<Rightarrow>
          (case checkFourOfAKind sortedCards of Some h \<Rightarrow> Inr h | None \<Rightarrow>
          (case checkFullHouse sortedCards of Some h \<Rightarrow> Inr h | None \<Rightarrow>
          (case checkFlush sortedCards of Some h \<Rightarrow> Inr h | None \<Rightarrow>
          (case checkStraight sortedCards of Some h \<Rightarrow> Inr h | None \<Rightarrow>
          (case checkThreeOfAKind sortedCards of Some h \<Rightarrow> Inr h | None \<Rightarrow>
          (case checkTwoPair sortedCards of Some h \<Rightarrow> Inr h | None \<Rightarrow>
          (case checkPair sortedCards of Some h \<Rightarrow> Inr h | None \<Rightarrow>
             Inr (checkHighCard sortedCards))))))))))"

text \<open>
  \<open>get5CardCombinations\<close>: five nested loops over the indices \<open>i < j < k < l < m\<close>,
  that is, all sublists of five cards in lexicographic order of their indices.
\<close>

fun combinations :: "nat \<Rightarrow> 'a list \<Rightarrow> 'a list list" where
  "combinations 0 xs = [[]]"
| "combinations (Suc k) [] = []"
| "combinations (Suc k) (x # xs) = map ((#) x) (combinations k xs) @ combinations (Suc k) xs"

definition get5CardCombinations :: "Card list \<Rightarrow> Card list list" where
  "get5CardCombinations cs = combinations 5 cs"

text \<open>The loop of \<open>evaluateBest7CardHand\<close> over the combinations, \<open>bestHand\<close> starting at \<open>null\<close>.\<close>

fun bestOfCombinations :: "HandRanking option \<Rightarrow> Card list list \<Rightarrow> error + HandRanking option" where
  "bestOfCombinations bestHand [] = Inr bestHand"
| "bestOfCombinations bestHand (combo # rest) =
     (case evaluateHand combo of
        Inl e \<Rightarrow> Inl e
      | Inr hand \<Rightarrow>
          (case bestHand of
             None \<Rightarrow> bestOfCombinations (Some hand) rest
           | Some best \<Rightarrow>
               if compareTo hand best > 0 then bestOfCombinations (Some hand) rest
               else bestOfCombinations (Some best) rest))"

definition evaluateBest7CardHand :: "Card list \<Rightarrow> error + HandRanking" where
  "evaluateBest7CardHand cs =
     (if length cs \<noteq> 7 then Inl (ExpectedSevenCards (length cs))
      else case bestOfCombinations None (get5CardCombinations cs) of
             Inl e \<Rightarrow> Inl e
           | Inr None \<Rightarrow> Inl NoCombination
           | Inr (Some best) \<Rightarrow> Inr best)"

section \<open>State transitions (engine/GameState.ts)\<close>

fun validTransitions :: "GameState \<Rightarrow> GameState list" where
  "validTransitions WaitingForPlayers = [ReadyToStart]"
| "validTransitions ReadyToStart = [PostingBlinds]"
| "validTransitions PostingBlinds = [DealingHoleCards]"
| "validTransitions DealingHoleCards = [PreflopBetting]"
| "validTransitions PreflopBetting = [DealingFlop, Showdown, HandComplete]"
| "validTransitions DealingFlop = [FlopBetting]"
| "validTransitions FlopBetting = [DealingTurn, Showdown, HandComplete]"
| "validTransitions DealingTurn = [TurnBetting]"
| "validTransitions TurnBetting = [DealingRiver, Showdown, HandComplete]"
| "validTransitions DealingRiver = [RiverBetting]"
| "validTransitions RiverBetting = [Showdown, HandComplete]"
| "validTransitions Showdown = [HandComplete]"
| "validTransitions HandComplete = [ReadyToStart, GameOver]"
| "validTransitions GameOver = []"

text \<open>\<open>validTransitions[from]?.includes(to) ?? false\<close>; every state has an entry.\<close>

definition isValidTransition :: "GameState \<Rightarrow> GameState \<Rightarrow> bool" where
  "isValidTransition from to = (to \<in> set (validTransitions from))"

section \<open>Players (models/Player.ts)\<close>

text \<open>
  The class \<open>Player\<close>; its field \<open>id\<close> is \<open>player_id\<close> here, \<open>id\<close> being HOL's
  identity function.
\<close>

record Player =
  player_id :: playerId
  name :: string
  holeCards :: "Card list"
  chipCount :: int
  currentBet :: int
  status :: PlayerStatus
  lastAction :: "PlayerAction option"

definition new_Player :: "playerId \<Rightarrow> string \<Rightarrow> int \<Rightarrow> Player" where
  "new_Player pid nm initialChips =
     \<lparr>player_id = pid, name = nm, holeCards = [], chipCount = initialChips, currentBet = 0,
      status = Active, lastAction = None\<rparr>"

definition addChips :: "Player \<Rightarrow> int \<Rightarrow> error + Player" where
  "addChips p amount =
     (if amount \<le> 0 then Inl CannotAddZeroOrNegativeChips
      else
        let p1 = p\<lparr>chipCount := chipCount p + amount\<rparr>
        in Inr (if status p1 = Eliminated \<and> chipCount p1 > 0 then p1\<lparr>status := Active\<rparr> else p1))"

text \<open>\<open>removeChips\<close> returns the amount actually removed and the player it leaves.\<close>

definition removeChips :: "Player \<Rightarrow> int \<Rightarrow> error + (int \<times> Player)" where
  "removeChips p amount =
     (if amount \<le> 0 then Inl CannotRemoveZeroOrNegativeChips
      else
        let availableChips = chipCount p;
            actualAmount = min amount availableChips
        in Inr (actualAmount, p\<lparr>chipCount := chipCount p - actualAmount\<rparr>))"

definition getHoleCards :: "Player \<Rightarrow> Card list" where
  "getHoleCards p =
     (if status p = Folded \<or> status p = SittingOut then [] else holeCards p)"

definition receiveCards :: "Player \<Rightarrow> Card list \<Rightarrow> Player" where
  "receiveCards p cs = p\<lparr>holeCards := cs\<rparr>"

text \<open>\<open>bet\<close> returns the amount actually bet and the player it leaves; it throws before any change.\<close>

definition bet :: "Player \<Rightarrow> int \<Rightarrow> error + (int \<times> Player)" where
  "bet p amount =
     (if status p \<noteq> Active then Inl (CannotBet (status p))
      else if currentBet p > 0 then Inl CannotBetAfterAlreadyBetting
      else case removeChips p amount of
             Inl e \<Rightarrow> Inl e
           | Inr (actualAmount, p1) \<Rightarrow>
               let p2 = p1\<lparr>currentBet := actualAmount\<rparr>
               in Inr (actualAmount,
                       if chipCount p2 = 0
                       then p2\<lparr>status := AllIn, lastAction := Some ActAllIn\<rparr>
                       else p2\<lparr>lastAction := Some ActBet\<rparr>))"

definition hasFolded :: "Player \<Rightarrow> bool" where
  "hasFolded p = (status p = Folded)"

definition isAllIn :: "Player \<Rightarrow> bool" where
  "isAllIn p = (status p = AllIn)"

definition resetForNewHand :: "Player \<Rightarrow> Player" where
  "resetForNewHand p =
     (let p1 = p\<lparr>holeCards := [], currentBet := 0, lastAction := None\<rparr>
      in if status p1 = Folded \<or> status p1 = AllIn
         then p1\<lparr>status := (if chipCount p1 > 0 then Active else Eliminated)\<rparr>
         else p1)"

section \<open>Table (models/Table.ts)\<close>

text \<open>
  A seat is \<open>None\<close> when empty and holds its player otherwise (\<open>isEmpty\<close> is true exactly
  when \<open>player\<close> is \<open>null\<close>, and \<open>position\<close> is the index of the seat). The table holds
  the players by value: a \<open>Player\<close> object is named by its seat, on the understanding
  that no object is seated twice.
\<close>

record TableConfig =
  maxSeats :: nat
  smallBlind :: int
  bigBlind :: int

record Table =
  seats :: "Player option list"
  buttonPosition :: nat
  communityCards :: "Card list"
  config :: TableConfig

definition new_Table :: "TableConfig \<Rightarrow> Table" where
  "new_Table cfg =
     \<lparr>seats = replicate (maxSeats cfg) None, buttonPosition = 0, communityCards = [], config = cfg\<rparr>"

text \<open>\<open>this.seats[position]\<close>, \<open>undefined\<close> past the end: then neither empty nor occupied.\<close>

definition seatIsEmpty :: "Table \<Rightarrow> nat \<Rightarrow> bool" where
  "seatIsEmpty t position = (position < length (seats t) \<and> seats t ! position = None)"

definition getPlayerAtSeat :: "Table \<Rightarrow> nat \<Rightarrow> Player option" where
  "getPlayerAtSeat t position = (if position < length (seats t) then seats t ! position else None)"

definition seatSittingOut :: "Table \<Rightarrow> nat \<Rightarrow> bool" where
  "seatSittingOut t position =
     (case getPlayerAtSeat t position of Some p \<Rightarrow> status p = SittingOut | None \<Rightarrow> False)"

text \<open>The occupied seats in seat order, each with its index.\<close>

definition occupiedSeats :: "Table \<Rightarrow> (nat \<times> Player) list" where
  "occupiedSeats t =
     List.map_filter (\<lambda>i. case seats t ! i of Some p \<Rightarrow> Some (i, p) | None \<Rightarrow> None)
       [0 ..< length (seats t)]"

definition getPlayers :: "Table \<Rightarrow> Player list" where
  "getPlayers t = map snd (occupiedSeats t)"

definition isActiveStatus :: "Player \<Rightarrow> bool" where
  "isActiveStatus p = (status p = Active \<or> status p = AllIn)"

definition getActivePlayers :: "Table \<Rightarrow> Player list" where
  "getActivePlayers t = filter isActiveStatus (getPlayers t)"

definition playerCount :: "Table \<Rightarrow> nat" where
  "playerCount t = length (filter (\<lambda>s. s \<noteq> None) (seats t))"

definition getButtonPosition :: "Table \<Rightarrow> nat" where
  "getButtonPosition t = buttonPosition t"

text \<open>
  The loop that the three blind searches share: while the seat is empty or sitting out and
  fewer than \<open>maxSeats\<close> attempts were made, move to the next seat. It returns the
  position and the number of attempts. (A table built with \<open>maxSeats = 0\<close> has no seat
  and no player, and the blind searches return before they reach the loop.)
\<close>

function skipUnavailable :: "Table \<Rightarrow> nat \<Rightarrow> nat \<Rightarrow> nat \<times> nat" where
  "skipUnavailable t position attempts =
     (if (seatIsEmpty t position \<or> seatSittingOut t position) \<and> attempts < maxSeats (config t)
      then skipUnavailable t ((position + 1) mod maxSeats (config t)) (attempts + 1)
      else (position, attempts))"
  by pat_completeness auto
termination
  by (relation "measure (\<lambda>(t, position, attempts). maxSeats (config t) - attempts)") auto

declare skipUnavailable.simps [simp del]

definition nextAvailableSeat :: "Table \<Rightarrow> nat \<Rightarrow> nat option" where
  "nextAvailableSeat t start =
     (let (position, attempts) = skipUnavailable t ((start + 1) mod maxSeats (config t)) 0
      in if attempts < maxSeats (config t) then Some position else None)"

definition getSmallBlindPosition :: "Table \<Rightarrow> nat option" where
  "getSmallBlindPosition t =
     (if playerCount t < 2 then None
      else if playerCount t = 2 then Some (buttonPosition t)
      else nextAvailableSeat t (buttonPosition t))"

definition getBigBlindPosition :: "Table \<Rightarrow> nat option" where
  "getBigBlindPosition t =
     (if playerCount t < 2 then None
      else if playerCount t = 2 then nextAvailableSeat t (buttonPosition t)
      else case getSmallBlindPosition t of
             None \<Rightarrow> None
           | Some sbPosition \<Rightarrow> nextAvailableSeat t sbPosition)"

definition getSmallBlindPlayer :: "Table \<Rightarrow> Player option" where
  "getSmallBlindPlayer t =
     (case getSmallBlindPosition t of Some position \<Rightarrow> getPlayerAtSeat t position | None \<Rightarrow> None)"

definition getBigBlindPlayer :: "Table \<Rightarrow> Player option" where
  "getBigBlindPlayer t =
     (case getBigBlindPosition t of Some position \<Rightarrow> getPlayerAtSeat t position | None \<Rightarrow> None)"

definition table_resetForNewHand :: "Table \<Rightarrow> Table" where
  "table_resetForNewHand t =
     t\<lparr>communityCards := [], seats := map (map_option resetForNewHand) (seats t)\<rparr>"

text \<open>Writing back the player object that sits at a seat.\<close>

definition setPlayerAtSeat :: "Table \<Rightarrow> nat \<Rightarrow> Player \<Rightarrow> Table" where
  "setPlayerAtSeat t position p = t\<lparr>seats := (seats t)[position := Some p]\<rparr>"

section \<open>Action order (engine/ActionOrderRules.ts)\<close>

datatype BettingStreet = StreetPreflop | StreetFlop | StreetTurn | StreetRiver

record ActionOrderResult =
  playerOrder :: "playerId list"
  startingBet :: int

text \<open>\<open>Array.prototype.findIndex\<close> and \<open>indexOf\<close>: the first index, or -1.\<close>

definition findIndex :: "('a \<Rightarrow> bool) \<Rightarrow> 'a list \<Rightarrow> int" where
  "findIndex pred xs =
     (case find (\<lambda>i. pred (xs ! i)) [0 ..< length xs] of Some i \<Rightarrow> int i | None \<Rightarrow> - 1)"

definition indexOf :: "'a list \<Rightarrow> 'a \<Rightarrow> int" where
  "indexOf xs x = findIndex (\<lambda>y. y = x) xs"

text \<open>A stable sort on the clockwise distance \<open>(a - startPos + maxSeats) % maxSeats\<close>.\<close>

definition sortByDistanceFromPosition :: "int list \<Rightarrow> int \<Rightarrow> int \<Rightarrow> int list" where
  "sortByDistanceFromPosition positions startPos seatCount =
     sort_key (\<lambda>a. js_rem (a - startPos + seatCount) seatCount) positions"

text \<open>
  \<open>activePlayers.map(p => allPlayers.findIndex(...)).filter(pos => pos !== -1)\<close>: the
  positions are indices into \<open>allPlayers\<close>.
\<close>

definition activePositionsOf :: "Player list \<Rightarrow> Player list \<Rightarrow> int list" where
  "activePositionsOf allPlayers activePlayers =
     filter (\<lambda>pos. pos \<noteq> - 1)
       (map (\<lambda>p. findIndex (\<lambda>player. player_id player = player_id p) allPlayers) activePlayers)"

text \<open>\<open>orderedPositions.map(pos => allPlayers[pos]?.id).filter(id => id !== undefined)\<close>.\<close>

definition positionsToIds :: "Player list \<Rightarrow> int list \<Rightarrow> playerId list" where
  "positionsToIds allPlayers orderedPositions =
     List.map_filter
       (\<lambda>pos. if 0 \<le> pos \<and> nat pos < length allPlayers
               then Some (player_id (allPlayers ! nat pos)) else None)
       orderedPositions"

text \<open>\<open>[...orderedPositions.slice(1), orderedPositions[0]!]\<close>.\<close>

definition moveFirstToEnd :: "'a list \<Rightarrow> 'a list" where
  "moveFirstToEnd xs = (case xs of [] \<Rightarrow> [] | x # rest \<Rightarrow> rest @ [x])"

text \<open>
  In \<open>getPreflopOrder\<close>, \<open>bbPos\<close> may be \<open>null\<close>: in the distance it then counts as 0,
  and \<open>indexOf(null)\<close> is -1.
\<close>

definition getPreflopOrder :: "Table \<Rightarrow> Player list \<Rightarrow> ActionOrderResult" where
  "getPreflopOrder t activePlayers =
     (let buttonPos = int (getButtonPosition t);
          bbPos = getBigBlindPosition t;
          bbPlayer = getBigBlindPlayer t;
          allPlayers = getPlayers t;
          seatCount = int (maxSeats (config t));
          activePositions = activePositionsOf allPlayers activePlayers;
          orderedPositions =
            (if length activePlayers = 2
             then sortByDistanceFromPosition activePositions buttonPos seatCount
             else
               let sorted = sortByDistanceFromPosition activePositions
                              (case bbPos of Some b \<Rightarrow> int b | None \<Rightarrow> 0) seatCount;
                   bbIndex = (case bbPos of Some b \<Rightarrow> indexOf sorted (int b) | None \<Rightarrow> - 1)
               in if bbIndex = 0 then moveFirstToEnd sorted else sorted)
      in \<lparr>playerOrder = positionsToIds allPlayers orderedPositions,
          startingBet = (case bbPlayer of Some p \<Rightarrow> currentBet p | None \<Rightarrow> 0)\<rparr>)"

definition getPostFlopOrder :: "Table \<Rightarrow> Player list \<Rightarrow> ActionOrderResult" where
  "getPostFlopOrder t activePlayers =
     (let buttonPos = int (getButtonPosition t);
          allPlayers = getPlayers t;
          seatCount = int (maxSeats (config t));
          activePositions = activePositionsOf allPlayers activePlayers;
          sorted = sortByDistanceFromPosition activePositions buttonPos seatCount;
          buttonIndex = indexOf sorted buttonPos;
          orderedPositions =
            (if buttonIndex = 0 \<and> length sorted > 1 then moveFirstToEnd sorted else sorted)
      in \<lparr>playerOrder = positionsToIds allPlayers orderedPositions, startingBet = 0\<rparr>)"

definition getActionOrder :: "Table \<Rightarrow> BettingStreet \<Rightarrow> ActionOrderResult" where
  "getActionOrder t street =
     (let activePlayers = getActivePlayers t
      in if length activePlayers = 0 then \<lparr>playerOrder = [], startingBet = 0\<rparr>
         else if street = StreetPreflop then getPreflopOrder t activePlayers
         else getPostFlopOrder t activePlayers)"

section \<open>Betting round tracker (engine/BettingStructure.ts)\<close>

datatype BettingRound = RoundPreflop | RoundFlop | RoundTurn | RoundRiver | RoundShowdown

fun toStreet :: "BettingRound \<Rightarrow> BettingStreet option" where
  "toStreet RoundPreflop = Some StreetPreflop"
| "toStreet RoundFlop = Some StreetFlop"
| "toStreet RoundTurn = Some StreetTurn"
| "toStreet RoundRiver = Some StreetRiver"
| "toStreet RoundShowdown = None"

text \<open>
  The tracker reads the table through a reference it shares with the hand manager; the
  model passes the table where the tracker reads it.
\<close>

record BettingRoundTracker =
  round :: BettingRound
  currentBetAmount :: int
  lastRaiserPosition :: int
  playerIdOrder :: "playerId list"
  currentActionIndex :: nat
  playersActed :: "playerId list"

definition new_BettingRoundTracker :: "Table \<Rightarrow> BettingRound \<Rightarrow> BettingRoundTracker" where
  "new_BettingRoundTracker t r =
     (let tracker = \<lparr>round = r, currentBetAmount = 0, lastRaiserPosition = - 1,
                      playerIdOrder = [], currentActionIndex = 0, playersActed = []\<rparr>
      in case toStreet r of
           None \<Rightarrow> tracker\<lparr>playerIdOrder := [], currentBetAmount := 0\<rparr>
         | Some street \<Rightarrow>
             let orderResult = getActionOrder t street
             in tracker\<lparr>playerIdOrder := playerOrder orderResult,
                        currentBetAmount := startingBet orderResult,
                        currentActionIndex := 0\<rparr>)"

section \<open>Deck (models/Deck.ts)\<close>

record Deck =
  deckCards :: "Card list"
  dealtCards :: "Card list"

definition fullDeck :: "Card list" where
  "fullDeck =
     concat (map (\<lambda>s. map (\<lambda>r. \<lparr>rank = r, suit = s\<rparr>)
                        [Two, Three, Four, Five, Six, Seven, Eight, Nine, Ten, Jack, Queen, King, Ace])
               [Spades, Hearts, Diamonds, Clubs])"

definition deck_reset :: "Deck \<Rightarrow> Deck" where
  "deck_reset d = \<lparr>deckCards = fullDeck, dealtCards = []\<rparr>"

text \<open>
  Fisher-Yates: for \<open>i\<close> from \<open>length - 1\<close> down to 1, swap \<open>cards[i]\<close> and \<open>cards[j]\<close>
  with \<open>j = Math.floor(Math.random() * (i + 1))\<close>. The random draws are a parameter:
  \<open>rnd i mod (i + 1)\<close> is the draw at index \<open>i\<close>.
\<close>

fun shuffleFrom :: "(nat \<Rightarrow> nat) \<Rightarrow> nat \<Rightarrow> Card list \<Rightarrow> Card list" where
  "shuffleFrom rnd 0 cs = cs"
| "shuffleFrom rnd (Suc i) cs =
     (let j = rnd (Suc i) mod (Suc i + 1)
      in shuffleFrom rnd i (cs[Suc i := cs ! j, j := cs ! Suc i]))"

definition deck_shuffle :: "(nat \<Rightarrow> nat) \<Rightarrow> Deck \<Rightarrow> Deck" where
  "deck_shuffle rnd d = d\<lparr>deckCards := shuffleFrom rnd (length (deckCards d) - 1) (deckCards d)\<rparr>"

text \<open>\<open>dealCard\<close> pops the last card of the array.\<close>

definition dealCard :: "Deck \<Rightarrow> error + (Card \<times> Deck)" where
  "dealCard d =
     (if deckCards d = [] then Inl CannotDealFromEmptyDeck
      else
        let topCard = last (deckCards d)
        in Inr (topCard, \<lparr>deckCards = butlast (deckCards d), dealtCards = dealtCards d @ [topCard]\<rparr>))"

fun dealCardsLoop :: "nat \<Rightarrow> Card list \<Rightarrow> Deck \<Rightarrow> error + (Card list \<times> Deck)" where
  "dealCardsLoop 0 dealt d = Inr (dealt, d)"
| "dealCardsLoop (Suc n) dealt d =
     (case dealCard d of
        Inl e \<Rightarrow> Inl e
      | Inr (topCard, d') \<Rightarrow> dealCardsLoop n (dealt @ [topCard]) d')"

definition dealCards :: "Deck \<Rightarrow> nat \<Rightarrow> error + (Card list \<times> Deck)" where
  "dealCards d count =
     (if count > length (deckCards d) then Inl (CannotDealCards count (length (deckCards d)))
      else dealCardsLoop count [] d)"

section \<open>Dealer (models/Dealer.ts)\<close>

text \<open>
  The dealer owns the deck and shares the table with the hand manager. A method that
  mutates and may throw returns \<open>(Some e, state)\<close> when it threw \<open>e\<close>, with the state
  as the throw left it, and \<open>(None, state)\<close> when it completed.
\<close>

definition dealer_prepareNewHand :: "(nat \<Rightarrow> nat) \<Rightarrow> Deck \<times> Table \<Rightarrow> Deck \<times> Table" where
  "dealer_prepareNewHand rnd dt =
     (case dt of (d, t) \<Rightarrow> (deck_shuffle rnd (deck_reset d), table_resetForNewHand t))"

definition activeSeats :: "Table \<Rightarrow> nat list" where
  "activeSeats t = map fst (filter (\<lambda>(seat, p). isActiveStatus p) (occupiedSeats t))"

text \<open>One round of \<open>dealHoleCards\<close>: one topCard to each of the players, in order.\<close>

fun dealRound :: "nat list \<Rightarrow> Deck \<times> Table \<Rightarrow> error option \<times> (Deck \<times> Table)" where
  "dealRound [] dt = (None, dt)"
| "dealRound (seat # rest) (d, t) =
     (case dealCard d of
        Inl e \<Rightarrow> (Some e, (d, t))
      | Inr (topCard, d') \<Rightarrow>
          (case getPlayerAtSeat t seat of
             None \<Rightarrow> dealRound rest (d', t)
           | Some p \<Rightarrow>
               dealRound rest
                 (d', setPlayerAtSeat t seat (receiveCards p (getHoleCards p @ [topCard])))))"

definition dealHoleCards :: "Deck \<times> Table \<Rightarrow> error option \<times> (Deck \<times> Table)" where
  "dealHoleCards dt =
     (let players = activeSeats (snd dt)
      in if length players < 2 then (Some NeedAtLeastTwoPlayersToDeal, dt)
         else case dealRound players dt of
                (Some e, dt1) \<Rightarrow> (Some e, dt1)
              | (None, dt1) \<Rightarrow> dealRound players dt1)"

text \<open>
  \<open>sort\<close> with a comparator: the sort is stable, and for a comparator that orders the
  elements consistently, as \<open>compareTo\<close> does, its result is that of inserting each
  element, from the last to the first, before the first element it does not follow.
\<close>

fun insertBy :: "('a \<Rightarrow> 'a \<Rightarrow> int) \<Rightarrow> 'a \<Rightarrow> 'a list \<Rightarrow> 'a list" where
  "insertBy cmp x [] = [x]"
| "insertBy cmp x (y # ys) = (if cmp x y \<le> 0 then x # y # ys else y # insertBy cmp x ys)"

definition sortBy :: "('a \<Rightarrow> 'a \<Rightarrow> int) \<Rightarrow> 'a list \<Rightarrow> 'a list" where
  "sortBy cmp xs = foldr (insertBy cmp) xs []"

text \<open>
  \<open>allCards.length === 7 ? evaluateBest7CardHand(allCards) : evaluateHand(allCards.slice(0, 5))\<close>.
\<close>

definition evaluatePlayerHand :: "Card list \<Rightarrow> error + HandRanking" where
  "evaluatePlayerHand allCards =
     (if length allCards = 7 then evaluateBest7CardHand allCards
      else evaluateHand (take 5 allCards))"

text \<open>
  The loop of \<open>determineWinners\<close> that evaluates every player; an entry is the seat of
  the player, the player and the hand.
\<close>

fun evaluatePlayers ::
  "Card list \<Rightarrow> (nat \<times> Player) list \<Rightarrow> error + (nat \<times> Player \<times> HandRanking) list" where
  "evaluatePlayers community [] = Inr []"
| "evaluatePlayers community ((seat, p) # rest) =
     (let allCards = getHoleCards p @ community
      in if length allCards < 5 then Inl (InsufficientCardsToEvaluate (player_id p))
         else case evaluatePlayerHand allCards of
                Inl e \<Rightarrow> Inl e
              | Inr hand \<Rightarrow>
                  (case evaluatePlayers community rest of
                     Inl e \<Rightarrow> Inl e
                   | Inr playerHands \<Rightarrow> Inr ((seat, p, hand) # playerHands)))"

definition determineWinners :: "Table \<Rightarrow> error + (nat \<times> Player \<times> HandRanking) list" where
  "determineWinners t =
     (let players = filter (\<lambda>(seat, p). \<not> hasFolded p) (occupiedSeats t);
          community = communityCards t
      in case players of
           [] \<Rightarrow> Inr []
         | [(seat, winner)] \<Rightarrow>
             (let cs = getHoleCards winner;
                  allCards = cs @ community
              in if length allCards \<ge> 5
                 then case evaluateHand (take 5 allCards) of
                        Inl e \<Rightarrow> Inl e
                      | Inr dummyHand \<Rightarrow> Inr [(seat, winner, dummyHand)]
                 else Inr [(seat, winner, new_HandRanking HighCard cs 0 0 [])])
         | _ \<Rightarrow>
             (case evaluatePlayers community players of
                Inl e \<Rightarrow> Inl e
              | Inr playerHands \<Rightarrow>
                  (let sortedHands =
                         sortBy (\<lambda>a b. compareTo (snd (snd b)) (snd (snd a))) playerHands
                   in case sortedHands of
                        [] \<Rightarrow> Inr []
                      | best # _ \<Rightarrow>
                          Inr (filter (\<lambda>ph. compareTo (snd (snd ph)) (snd (snd best)) = 0)
                                 sortedHands))))"

text \<open>
  The interface \<open>WinnerResult\<close>, its fields \<open>player\<close> and \<open>hand\<close> prefixed; the
  player is the object as the payment leaves it.
\<close>

record WinnerResult =
  winnerPlayer :: Player
  winnerHand :: HandRanking
  amountWon :: int

text \<open>
  The loop of \<open>Dealer.distributePots\<close> that pays the winners: a winner with a positive
  amount has it added to the chips and is reported.
\<close>

fun awardWinners ::
  "(playerId \<times> int) list \<Rightarrow> (nat \<times> Player \<times> HandRanking) list \<Rightarrow> Table
     \<Rightarrow> error + (WinnerResult list \<times> Table)" where
  "awardWinners winnings [] t = Inr ([], t)"
| "awardWinners winnings ((seat, p, h) # rest) t =
     (let amount = winningsOf winnings (player_id p)
      in if amount > 0
         then case addChips p amount of
                Inl e \<Rightarrow> Inl e
              | Inr p' \<Rightarrow>
                  (case awardWinners winnings rest (setPlayerAtSeat t seat p') of
                     Inl e \<Rightarrow> Inl e
                   | Inr (results, t') \<Rightarrow>
                       Inr (\<lparr>winnerPlayer = p', winnerHand = h, amountWon = amount\<rparr> # results, t'))
         else awardWinners winnings rest t)"

definition dealer_distributePots ::
  "Table \<Rightarrow> PotManager \<Rightarrow> error + (WinnerResult list \<times> Table)" where
  "dealer_distributePots t pm =
     (case determineWinners t of
        Inl e \<Rightarrow> Inl e
      | Inr winners \<Rightarrow>
          if length winners = 0 then Inr ([], t)
          else
            let winnersForPot = map (\<lambda>(seat, p, h). player_id p) winners;
                winnings = distributePots pm winnersForPot
            in awardWinners winnings winners t)"

section \<open>Hand manager (engine/HandManager.ts)\<close>

record HandManager =
  table :: Table
  deck :: Deck
  potManager :: PotManager
  currentState :: GameState
  handNumber :: int
  bettingTracker :: "BettingRoundTracker option"

definition new_HandManager :: "Table \<Rightarrow> HandManager" where
  "new_HandManager t =
     \<lparr>table = t, deck = deck_reset \<lparr>deckCards = [], dealtCards = []\<rparr>,
      potManager = new_PotManager, currentState = WaitingForPlayers, handNumber = 0,
      bettingTracker = None\<rparr>"

definition getState :: "HandManager \<Rightarrow> GameState" where
  "getState hm = currentState hm"

definition setState :: "HandManager \<Rightarrow> GameState \<Rightarrow> error option \<times> HandManager" where
  "setState hm newState =
     (if \<not> isValidTransition (currentState hm) newState
      then (Some (InvalidStateTransition (currentState hm) newState), hm)
      else (None, hm\<lparr>currentState := newState\<rparr>))"

definition postBlinds :: "Table \<Rightarrow> error option \<times> Table" where
  "postBlinds t =
     (case (getSmallBlindPosition t, getBigBlindPosition t) of
        (Some sbPos, Some bbPos) \<Rightarrow>
          (case (getPlayerAtSeat t sbPos, getPlayerAtSeat t bbPos) of
             (Some sbPlayer, Some _) \<Rightarrow>
               (case bet sbPlayer (min (chipCount sbPlayer) (smallBlind (config t))) of
                  Inl e \<Rightarrow> (Some e, t)
                | Inr (_, sbPlayer') \<Rightarrow>
                    (let t1 = setPlayerAtSeat t sbPos sbPlayer'
                     in case getPlayerAtSeat t1 bbPos of
                          None \<Rightarrow> (Some CannotDetermineBlindPlayers, t1)
                        | Some bbPlayer \<Rightarrow>
                            (case bet bbPlayer (min (chipCount bbPlayer) (bigBlind (config t))) of
                               Inl e \<Rightarrow> (Some e, t1)
                             | Inr (_, bbPlayer') \<Rightarrow> (None, setPlayerAtSeat t1 bbPos bbPlayer'))))
           | _ \<Rightarrow> (Some CannotDetermineBlindPlayers, t))
      | _ \<Rightarrow> (Some CannotDetermineBlindPlayers, t))"

text \<open>Sequencing: the next step runs only when the one before did not throw.\<close>

definition andThen ::
  "error option \<times> 's \<Rightarrow> ('s \<Rightarrow> error option \<times> 's) \<Rightarrow> error option \<times> 's" where
  "andThen r f = (case r of (Some e, s) \<Rightarrow> (Some e, s) | (None, s) \<Rightarrow> f s)"

definition hm_postBlinds :: "HandManager \<Rightarrow> error option \<times> HandManager" where
  "hm_postBlinds hm = (case postBlinds (table hm) of (r, t) \<Rightarrow> (r, hm\<lparr>table := t\<rparr>))"

definition hm_dealHoleCards :: "HandManager \<Rightarrow> error option \<times> HandManager" where
  "hm_dealHoleCards hm =
     (case dealHoleCards (deck hm, table hm) of (r, (d, t)) \<Rightarrow> (r, hm\<lparr>deck := d, table := t\<rparr>))"

text \<open>\<open>startHand\<close>; \<open>rnd\<close> supplies the random draws of the shuffle.\<close>

definition startHand :: "(nat \<Rightarrow> nat) \<Rightarrow> HandManager \<Rightarrow> error option \<times> HandManager" where
  "startHand rnd hm =
     (if currentState hm \<noteq> ReadyToStart
      then (Some (CannotStartHandFromState (currentState hm)), hm)
      else
        let hm1 = hm\<lparr>handNumber := handNumber hm + 1\<rparr>;
            (d, t) = dealer_prepareNewHand rnd (deck hm1, table hm1);
            hm2 = hm1\<lparr>deck := d, table := t\<rparr>;
            playerCount = length (getActivePlayers (table hm2))
        in if playerCount < 2 then (Some NeedAtLeastTwoPlayersToStartHand, hm2)
           else
             andThen (setState hm2 PostingBlinds) (\<lambda>hm3.
             andThen (hm_postBlinds hm3) (\<lambda>hm4.
             andThen (setState hm4 DealingHoleCards) (\<lambda>hm5.
             andThen (hm_dealHoleCards hm5) (\<lambda>hm6.
             andThen (setState hm6 PreflopBetting) (\<lambda>hm7.
               (None, hm7\<lparr>bettingTracker :=
                              Some (new_BettingRoundTracker (table hm7) RoundPreflop)\<rparr>)))))))"

text \<open>The interface \<open>HandResult\<close>, its fields prefixed with \<open>result\<close>.\<close>

record HandResult =
  resultWinners :: "WinnerResult list"
  resultTotalPot :: int
  resultHandNumber :: int

text \<open>\<open>performShowdown\<close> returns its result, or the error it threw, and the state it leaves.\<close>

definition performShowdown :: "HandManager \<Rightarrow> (error + HandResult) \<times> HandManager" where
  "performShowdown hm =
     (if currentState hm \<noteq> Showdown \<and> currentState hm \<noteq> HandComplete
      then (Inl (CannotPerformShowdownFromState (currentState hm)), hm)
      else
        let total = getTotalPotAmount (potManager hm)
        in case dealer_distributePots (table hm) (potManager hm) of
             Inl e \<Rightarrow> (Inl e, hm)
           | Inr (ws, t) \<Rightarrow>
               (let hm1 = hm\<lparr>table := t\<rparr>;
                    result = \<lparr>resultWinners = ws, resultTotalPot = total,
                              resultHandNumber = handNumber hm\<rparr>
                in if currentState hm1 \<noteq> HandComplete
                   then case setState hm1 HandComplete of
                          (Some e, hm2) \<Rightarrow> (Inl e, hm2)
                        | (None, hm2) \<Rightarrow> (Inr result, hm2)
                   else (Inr result, hm1)))"

section \<open>JavaScript numbers\<close>

text \<open>
  A \<open>number\<close> is an IEEE 754 double. A finite double is \<open>m * 2 ^ e\<close> for integers \<open>m\<close>
  and \<open>e\<close>, the mantissa \<open>m\<close> having at most 53 bits; the model keeps the pair
  \<open>(m, e)\<close>, which need not be normalised. The exponent is not bounded: overflow to
  \<open>Infinity\<close>, the reduced precision of subnormal numbers (below \<open>2 ^ -1022\<close>),
  \<open>NaN\<close> and the sign of zero are not modelled.
\<close>

type_synonym number = "int \<times> int"

text \<open>The number of bits of a non-negative integer.\<close>

function bitLength :: "int \<Rightarrow> nat" where
  "bitLength m = (if m \<le> 0 then 0 else Suc (bitLength (m div 2)))"
  by pat_completeness auto

termination
  by (relation "measure nat") auto

declare bitLength.simps [simp del]

text \<open>
  The result of an arithmetic operation is the exact result rounded to the nearest
  double, a tie going to the even mantissa. \<open>roundToDouble (m, e)\<close> rounds the exact
  value \<open>m * 2 ^ e\<close>: a mantissa of \<open>53 + s\<close> bits loses its \<open>s\<close> low bits.
\<close>

definition roundToDouble :: "int \<times> int \<Rightarrow> number" where
  "roundToDouble x =
     (case x of
        (m, e) \<Rightarrow>
          let n = bitLength \<bar>m\<bar>
          in if n \<le> 53 then (m, e)
             else
               let s = n - 53;
                   q = \<bar>m\<bar> div 2 ^ s;
                   r = \<bar>m\<bar> mod 2 ^ s;
                   half = 2 ^ (s - 1);
                   q' = (if half < r \<or> (r = half \<and> odd q) then q + 1 else q)
               in (sgn m * q', e + int s))"

text \<open>Two numbers brought to their smaller exponent: both mantissas and that exponent.\<close>

definition aligned :: "number \<Rightarrow> number \<Rightarrow> int \<times> int \<times> int" where
  "aligned a b =
     (case (a, b) of
        ((m1, e1), (m2, e2)) \<Rightarrow>
          let e = min e1 e2 in (m1 * 2 ^ nat (e1 - e), m2 * 2 ^ nat (e2 - e), e))"

text \<open>\<open>a + b\<close>, \<open>a - b\<close>, \<open>a * b\<close>, \<open>a <= b\<close>, \<open>a < b\<close> and \<open>a === b\<close> on numbers.\<close>

definition number_add :: "number \<Rightarrow> number \<Rightarrow> number" where
  "number_add a b = (case aligned a b of (x, y, e) \<Rightarrow> roundToDouble (x + y, e))"

definition number_sub :: "number \<Rightarrow> number \<Rightarrow> number" where
  "number_sub a b = (case aligned a b of (x, y, e) \<Rightarrow> roundToDouble (x - y, e))"

definition number_mul :: "number \<Rightarrow> number \<Rightarrow> number" where
  "number_mul a b = (case (a, b) of ((m1, e1), (m2, e2)) \<Rightarrow> roundToDouble (m1 * m2, e1 + e2))"

definition number_le :: "number \<Rightarrow> number \<Rightarrow> bool" where
  "number_le a b = (case aligned a b of (x, y, e) \<Rightarrow> x \<le> y)"

definition number_lt :: "number \<Rightarrow> number \<Rightarrow> bool" where
  "number_lt a b = (case aligned a b of (x, y, e) \<Rightarrow> x < y)"

definition number_eq :: "number \<Rightarrow> number \<Rightarrow> bool" where
  "number_eq a b = (case aligned a b of (x, y, e) \<Rightarrow> x = y)"

text \<open>An integer literal.\<close>

definition number_of_int :: "int \<Rightarrow> number" where
  "number_of_int i = roundToDouble (i, 0)"

section \<open>Pot ledger on fractional amounts (engine/BettingStructure.ts)\<close>

text \<open>
  The classes \<open>Pot\<close> and \<open>PotManager\<close> once more, line by line as in the section on
  the pot ledger, with the amounts as JavaScript numbers and every \<open>+\<close>, \<open>-\<close>, \<open><=\<close>,
  \<open>>=\<close>, \<open>>\<close> and \<open>===\<close> on amounts as the operation on doubles. Each name carries the
  suffix \<open>_num\<close>.
\<close>

record Pot_num =
  contributions_num :: "(playerId \<times> number) list"
  eligiblePlayerIds_num :: "playerId list"

definition new_Pot_num :: "playerId list \<Rightarrow> Pot_num" where
  "new_Pot_num eligiblePlayers =
     \<lparr>contributions_num = [], eligiblePlayerIds_num = new_Set eligiblePlayers\<rparr>"

definition addContribution_num :: "Pot_num \<Rightarrow> playerId \<Rightarrow> number \<Rightarrow> error + Pot_num" where
  "addContribution_num pot pid amount =
     (if number_le amount (0, 0) then Inl ContributionMustBePositive
      else
        let currentAmount =
              (case map_of (contributions_num pot) pid of None \<Rightarrow> (0, 0) | Some a \<Rightarrow> a)
        in Inr (pot\<lparr>contributions_num :=
                      AList.update pid (number_add currentAmount amount) (contributions_num pot),
                    eligiblePlayerIds_num :=
                      (if pid \<notin> set (eligiblePlayerIds_num pot)
                       then eligiblePlayerIds_num pot @ [pid]
                       else eligiblePlayerIds_num pot)\<rparr>))"

text \<open>The getter \<open>total\<close>: \<open>sum\<close> starts at 0 and adds the amounts in insertion order.\<close>

definition pot_total_num :: "Pot_num \<Rightarrow> number" where
  "pot_total_num pot = foldl number_add (0, 0) (map snd (contributions_num pot))"

definition removePlayerEligibility_num :: "Pot_num \<Rightarrow> playerId \<Rightarrow> Pot_num" where
  "removePlayerEligibility_num pot pid =
     pot\<lparr>eligiblePlayerIds_num := filter (\<lambda>q. q \<noteq> pid) (eligiblePlayerIds_num pot)\<rparr>"

record PotManager_num =
  mainPot_num :: Pot_num
  sidePots_num :: "Pot_num list"

definition new_PotManager_num :: PotManager_num where
  "new_PotManager_num = \<lparr>mainPot_num = new_Pot_num [], sidePots_num = []\<rparr>"

fun collectContributions_num ::
  "playerId list \<Rightarrow> number \<Rightarrow> Pot_num \<Rightarrow> (playerId \<times> number) list
     \<Rightarrow> error + (Pot_num \<times> (playerId \<times> number) list)" where
  "collectContributions_num [] contributionAmount pot remainingContributions =
     Inr (pot, remainingContributions)"
| "collectContributions_num (pid # rest) contributionAmount pot remainingContributions =
     (case addContribution_num pot pid contributionAmount of
        Inl e \<Rightarrow> Inl e
      | Inr pot' \<Rightarrow>
          (case map_of remainingContributions pid of
             None \<Rightarrow> Inl MissingRemainingContribution
           | Some remaining \<Rightarrow>
               collectContributions_num rest contributionAmount pot'
                 (AList.update pid (number_sub remaining contributionAmount)
                    remainingContributions)))"

text \<open>
  The loop over the bet levels. \<open>contributionAmount\<close> is the rounded difference of two
  levels, \<open>remaining\<close> what repeated rounded subtraction has left of a player's amount;
  the filter \<open>remaining >= contributionAmount\<close> compares the two.
\<close>

fun collectLevels_num ::
  "number \<Rightarrow> number list \<Rightarrow> (playerId \<times> number) list \<Rightarrow> playerId list \<Rightarrow> PotManager_num
     \<Rightarrow> error + PotManager_num" where
  "collectLevels_num previousLevel [] remainingContributions foldedPlayers pm = Inr pm"
| "collectLevels_num previousLevel (currentLevel # levels) remainingContributions foldedPlayers pm =
     (let contributionAmount = number_sub currentLevel previousLevel;
          contributingPlayers =
            map fst (filter (\<lambda>(pid, remaining). number_le contributionAmount remaining)
                       remainingContributions)
      in if contributingPlayers = []
         then collectLevels_num currentLevel levels remainingContributions foldedPlayers pm
         else
           let eligiblePlayers = filter (\<lambda>pid. pid \<notin> set foldedPlayers) contributingPlayers
           in case collectContributions_num contributingPlayers contributionAmount
                     (new_Pot_num eligiblePlayers) remainingContributions of
                Inl e \<Rightarrow> Inl e
              | Inr (pot, remainingContributions') \<Rightarrow>
                  let pot' = foldl removePlayerEligibility_num pot foldedPlayers;
                      pm' = (if number_eq (pot_total_num (mainPot_num pm)) (0, 0)
                             then pm\<lparr>mainPot_num := pot'\<rparr>
                             else pm\<lparr>sidePots_num := sidePots_num pm @ [pot']\<rparr>)
                  in collectLevels_num currentLevel levels remainingContributions' foldedPlayers
                       pm')"

text \<open>
  \<open>new Set\<close> keeps the first of equal numbers; \<open>sort((a, b) => a - b)\<close> orders by the
  sign of the difference, which is the sign of its mantissa.
\<close>

definition new_Set_num :: "number list \<Rightarrow> number list" where
  "new_Set_num xs = foldl (\<lambda>s x. if list_ex (number_eq x) s then s else s @ [x]) [] xs"

definition uniqueBetAmounts_num :: "(playerId \<times> number) list \<Rightarrow> number list" where
  "uniqueBetAmounts_num playerBets =
     sortBy (\<lambda>a b. fst (number_sub a b))
       (new_Set_num (filter (\<lambda>amt. number_lt (0, 0) amt) (map snd playerBets)))"

definition collectBets_num ::
  "PotManager_num \<Rightarrow> (playerId \<times> number) list \<Rightarrow> playerId list \<Rightarrow> playerId list
     \<Rightarrow> error + PotManager_num" where
  "collectBets_num pm playerBets allInPlayers foldedPlayers =
     (if length playerBets = 0 then Inr pm
      else if length (uniqueBetAmounts_num playerBets) = 0 then Inr pm
      else collectLevels_num (0, 0) (uniqueBetAmounts_num playerBets) playerBets foldedPlayers pm)"

definition getTotalPotAmount_num :: "PotManager_num \<Rightarrow> number" where
  "getTotalPotAmount_num pm =
     foldl (\<lambda>t sidePot. number_add t (pot_total_num sidePot)) (pot_total_num (mainPot_num pm))
       (sidePots_num pm)"

section \<open>Notions used to state the properties of the pot ledger\<close>

text \<open>
  The share of one pot that the specification promises to a player: the pot is split by
  integer division among the eligible winners, in the supplied order, and the first of
  them also receives the remainder. \<open>count_list\<close> is 1 for every eligible winner when
  the winner list names nobody twice. A pot without eligible winner pays nothing.
\<close>

definition potShare :: "Pot \<Rightarrow> playerId list \<Rightarrow> playerId \<Rightarrow> int" where
  "potShare pot winners pid =
     (let eligibleWinners = filter (isPlayerEligible pot) winners;
          n = int (length eligibleWinners)
      in if eligibleWinners = [] then 0
         else (pot_total pot div n) * int (count_list eligibleWinners pid)
              + (if pid = hd eligibleWinners then pot_total pot mod n else 0))"

text \<open>
  A hand calls \<open>collectBets\<close> once per street on the same pot manager; a throw ends the
  sequence.
\<close>

fun collectBetsAll ::
  "PotManager \<Rightarrow> ((playerId \<times> int) list \<times> playerId list \<times> playerId list) list
     \<Rightarrow> error + PotManager" where
  "collectBetsAll pm [] = Inr pm"
| "collectBetsAll pm ((playerBets, allInPlayers, foldedPlayers) # calls) =
     (case collectBets pm playerBets allInPlayers foldedPlayers of
        Inl e \<Rightarrow> Inl e
      | Inr pm' \<Rightarrow> collectBetsAll pm' calls)"

text \<open>
  The invariant of a pot: every recorded contribution is positive, since
  \<open>addContribution\<close> refuses any other amount.
\<close>

definition potPositive :: "Pot \<Rightarrow> bool" where
  "potPositive pot = (\<forall>(p, a) \<in> set (contributions pot). 0 < a)"

text \<open>
  What one level of \<open>collectBets\<close> does to an entry of \<open>remainingContributions\<close>.
\<close>

definition pay :: "int \<Rightarrow> playerId \<times> int \<Rightarrow> playerId \<times> int" where
  "pay amt e = (if snd e \<ge> amt then (fst e, snd e - amt) else e)"

text \<open>
  What a decimal literal denotes: \<open>nearestDouble (m, e) p q\<close> says that \<open>m * 2 ^ e\<close>,
  with a mantissa of exactly 53 bits, is within half a unit of its last bit of the
  fraction \<open>p / q\<close>.
\<close>

definition nearestDouble :: "number \<Rightarrow> int \<Rightarrow> int \<Rightarrow> bool" where
  "nearestDouble x p q =
     (case x of
        (m, e) \<Rightarrow>
          0 < q \<and> 2 ^ 52 \<le> \<bar>m\<bar> \<and> \<bar>m\<bar> < 2 ^ 53
          \<and> (if e \<le> 0 then 2 * \<bar>q * m - p * 2 ^ nat (- e)\<bar> \<le> q
              else 2 * \<bar>q * m * 2 ^ nat e - p\<bar> \<le> q * 2 ^ nat e))"

section \<open>Notions used to state the properties of the hand ranking\<close>

text \<open>The kicker loop of \<open>compareTo\<close> on its own.\<close>

definition kickerCompare :: "int list \<Rightarrow> int list \<Rightarrow> int" where
  "kickerCompare a b =
     (case find (\<lambda>i. kickerAt a i \<noteq> kickerAt b i) [0 ..< max (length a) (length b)] of
        Some i \<Rightarrow> kickerAt a i - kickerAt b i
      | None \<Rightarrow> 0)"

text \<open>
  The lexicographic reading of the kickers, the shorter array padded with zeros: below
  at the first index where they differ, or agreeing at every index.
\<close>

definition kickersBelow :: "int list \<Rightarrow> int list \<Rightarrow> bool" where
  "kickersBelow a b =
     (\<exists>i. kickerAt a i < kickerAt b i \<and> (\<forall>j<i. kickerAt a j = kickerAt b j))"

definition kickersAgree :: "int list \<Rightarrow> int list \<Rightarrow> bool" where
  "kickersAgree a b = (\<forall>i. kickerAt a i = kickerAt b i)"

definition handBelow :: "HandRanking \<Rightarrow> HandRanking \<Rightarrow> bool" where
  "handBelow A B \<longleftrightarrow>
     HandRank_value (handRank A) < HandRank_value (handRank B)
     \<or> (handRank A = handRank B \<and>
        (primaryValue A < primaryValue B
         \<or> (primaryValue A = primaryValue B \<and>
            (secondaryValue A < secondaryValue B
             \<or> (secondaryValue A = secondaryValue B \<and> kickersBelow (kickers A) (kickers B))))))"

definition handTied :: "HandRanking \<Rightarrow> HandRanking \<Rightarrow> bool" where
  "handTied A B \<longleftrightarrow>
     handRank A = handRank B \<and> primaryValue A = primaryValue B
     \<and> secondaryValue A = secondaryValue B \<and> kickersAgree (kickers A) (kickers B)"

text \<open>
  A kicker is the value of a card, one of \<open>RANK_VALUES\<close>: 2 for a two up to 14 for an
  ace. \<open>cardValued\<close> says so of a kicker array.
\<close>

definition cardValued :: "int list \<Rightarrow> bool" where
  "cardValued ks = list_all (\<lambda>k. 2 \<le> k \<and> k \<le> 14) ks"

text \<open>The number of kickers the evaluator records for each category.\<close>

fun kickerCount :: "HandRank \<Rightarrow> nat" where
  "kickerCount HighCard = 4"
| "kickerCount OnePair = 3"
| "kickerCount TwoPair = 1"
| "kickerCount ThreeOfAKind = 2"
| "kickerCount Straight = 0"
| "kickerCount Flush = 4"
| "kickerCount FullHouse = 0"
| "kickerCount FourOfAKind = 1"
| "kickerCount StraightFlush = 0"
| "kickerCount RoyalFlush = 0"

section \<open>Notions used to state the properties of the hand lifecycle\<close>

text \<open>
  The transition graph in the words of the specification: the linear path from
  WaitingForPlayers through Showdown to HandComplete; from every betting state also to
  Showdown and to HandComplete; from HandComplete to ReadyToStart or GameOver; nothing
  out of GameOver.
\<close>

definition specLinearPath :: "GameState list" where
  "specLinearPath =
     [WaitingForPlayers, ReadyToStart, PostingBlinds, DealingHoleCards, PreflopBetting,
      DealingFlop, FlopBetting, DealingTurn, TurnBetting, DealingRiver, RiverBetting,
      Showdown, HandComplete]"

definition specBettingStates :: "GameState list" where
  "specBettingStates = [PreflopBetting, FlopBetting, TurnBetting, RiverBetting]"

definition specTransition :: "GameState \<Rightarrow> GameState \<Rightarrow> bool" where
  "specTransition from to =
     ((from, to) \<in> set (zip specLinearPath (tl specLinearPath))
      \<or> (from \<in> set specBettingStates \<and> (to = Showdown \<or> to = HandComplete))
      \<or> (from = HandComplete \<and> (to = ReadyToStart \<or> to = GameOver)))"



section \<open>Example scenarios\<close>

text \<open>
  Three players at showdown: p1, all-in, holds a pair of aces; p2 a pair of kings; p3 a
  pair of queens; the board pairs nobody and makes no straight or flush.
\<close>

definition showdownTable :: Table where
  "showdownTable =
     \<lparr>seats =
        [Some \<lparr>player_id = ''p1'', name = ''Alice'',
               holeCards = [\<lparr>rank = Ace, suit = Spades\<rparr>, \<lparr>rank = Ace, suit = Hearts\<rparr>],
               chipCount = 0, currentBet = 0, status = AllIn, lastAction = Some ActAllIn\<rparr>,
         Some \<lparr>player_id = ''p2'', name = ''Bob'',
               holeCards = [\<lparr>rank = King, suit = Spades\<rparr>, \<lparr>rank = King, suit = Hearts\<rparr>],
               chipCount = 800, currentBet = 0, status = Active, lastAction = None\<rparr>,
         Some \<lparr>player_id = ''p3'', name = ''Charlie'',
               holeCards = [\<lparr>rank = Queen, suit = Spades\<rparr>, \<lparr>rank = Queen, suit = Hearts\<rparr>],
               chipCount = 800, currentBet = 0, status = Active, lastAction = None\<rparr>],
      buttonPosition = 0,
      communityCards = [\<lparr>rank = Two, suit = Clubs\<rparr>, \<lparr>rank = Seven, suit = Diamonds\<rparr>,
                        \<lparr>rank = Nine, suit = Hearts\<rparr>, \<lparr>rank = Jack, suit = Clubs\<rparr>,
                        \<lparr>rank = Four, suit = Spades\<rparr>],
      config = \<lparr>maxSeats = 3, smallBlind = 5, bigBlind = 10\<rparr>\<rparr>"



text \<open>A hand manager that is ready to start with a single seated player.\<close>

definition lonePlayerManager :: HandManager where
  "lonePlayerManager =
     (new_HandManager
        \<lparr>seats = [Some (new_Player ''p1'' ''Alice'' 1000), None, None, None, None, None],
         buttonPosition = 0, communityCards = [],
         config = \<lparr>maxSeats = 6, smallBlind = 5, bigBlind = 10\<rparr>\<rparr>)
     \<lparr>currentState := ReadyToStart, handNumber := 3\<rparr>"

text \<open>
  Two contribution maps with amounts that are not integers. \<open>fractionalBets\<close> is
  \<open>{p1: 0.1, p2: 0.2, p3: 1.1}\<close>. \<open>sizedBets\<close> holds bets as the AI engine sizes them,
  \<open>potSize * 0.66\<close> and \<open>callAmount * 2.5\<close>: \<open>{p1: 45 * 0.66, p2: 370 * 0.66,
  p3: 37 * 2.5}\<close>, where 2.5 is \<open>5 * 2 ^ -1\<close> exactly.
\<close>

definition fractionalBets :: "(playerId \<times> number) list" where
  "fractionalBets =
     [(''p1'', (7205759403792794, - 56)), (''p2'', (7205759403792794, - 55)),
      (''p3'', (4953959590107546, - 52))]"

definition sizedBets :: "(playerId \<times> number) list" where
  "sizedBets =
     [(''p1'', number_mul (number_of_int 45) (5944751508129055, - 53)),
      (''p2'', number_mul (number_of_int 370) (5944751508129055, - 53)),
      (''p3'', number_mul (number_of_int 37) (5, - 1))]"

section \<open>Properties of the pot ledger\<close>

lemma new_Set_Nil [simp]: "new_Set [] = []"
  by (simp add: new_Set_def)

lemma uniqueBetAmounts_no_positive:
  "\<forall>(pid, amt) \<in> set playerBets. amt \<le> 0 \<Longrightarrow> uniqueBetAmounts playerBets = []"
proof -
  assume h: "\<forall>(pid, amt) \<in> set playerBets. amt \<le> 0"
  have "filter (\<lambda>amt. amt > 0) (map snd playerBets) = []"
    using h by (auto simp: filter_empty_conv)
  then show ?thesis by (simp add: uniqueBetAmounts_def)
qed

text \<open>
  Claim C9. \<open>collectBets\<close> called with a contribution map that is empty or holds no
  strictly positive amount returns normally, without any error, and leaves the main pot
  and the side pots exactly as they were.
\<close>

theorem collectBets_nothing_positive:
  "\<forall>(pid, amt) \<in> set playerBets. amt \<le> 0 \<Longrightarrow>
     collectBets pm playerBets allInPlayers foldedPlayers = Inr pm"
  by (simp add: collectBets_def uniqueBetAmounts_no_positive)

theorem collectBets_nothing_positive_witness:
  "collectBets new_PotManager [] [] [] = Inr new_PotManager
   \<and> collectBets \<lparr>mainPot = \<lparr>contributions = [(''p1'', 10)], eligiblePlayerIds = [''p1'']\<rparr>,
                   sidePots = []\<rparr> [(''p1'', 0), (''p2'', -5)] [] [''p2'']
       = Inr \<lparr>mainPot = \<lparr>contributions = [(''p1'', 10)], eligiblePlayerIds = [''p1'']\<rparr>,
              sidePots = []\<rparr>"
  using collectBets_nothing_positive [of "[]" new_PotManager "[]" "[]"]
    collectBets_nothing_positive [of "[(''p1'', 0), (''p2'', -5)]"
      "\<lparr>mainPot = \<lparr>contributions = [(''p1'', 10)], eligiblePlayerIds = [''p1'']\<rparr>,
        sidePots = []\<rparr>" "[]" "[''p2'']"]
  by simp

text \<open>
  Claim C10. Eligibility removal is not permanent: after \<open>removePlayerEligibility(p)\<close>, a
  later \<open>addContribution(p, a)\<close> with \<open>a > 0\<close> succeeds and makes \<open>isPlayerEligible(p)\<close>
  true again.
\<close>

theorem eligibility_restored_by_contribution:
  "a > 0 \<Longrightarrow>
     \<exists>pot'. addContribution (removePlayerEligibility pot p) p a = Inr pot'
            \<and> isPlayerEligible pot' p
            \<and> \<not> isPlayerEligible (removePlayerEligibility pot p) p"
  by (simp add: addContribution_def removePlayerEligibility_def isPlayerEligible_def Let_def)

theorem eligibility_restored_by_contribution_witness:
  "(25::int) > 0 \<and>
   (\<exists>pot'. addContribution
              (removePlayerEligibility
                 \<lparr>contributions = [(''p1'', 100), (''p2'', 100)],
                  eligiblePlayerIds = [''p1'', ''p2'']\<rparr> ''p1'') ''p1'' 25 = Inr pot'
            \<and> isPlayerEligible pot' ''p1''
            \<and> \<not> isPlayerEligible
                 (removePlayerEligibility
                    \<lparr>contributions = [(''p1'', 100), (''p2'', 100)],
                     eligiblePlayerIds = [''p1'', ''p2'']\<rparr> ''p1'') ''p1'')"
  using eligibility_restored_by_contribution
    [of 25 "\<lparr>contributions = [(''p1'', 100), (''p2'', 100)],
             eligiblePlayerIds = [''p1'', ''p2'']\<rparr>" "''p1''"]
  by simp


subsection \<open>Conservation in collectBets on integer amounts\<close>

lemma getTotalPotAmount_sum:
  "getTotalPotAmount pm = pot_total (mainPot pm) + sum_list (map pot_total (sidePots pm))"
proof -
  have "\<And>t. foldl (\<lambda>t sidePot. t + pot_total sidePot) t ps = t + sum_list (map pot_total ps)" for ps
    by (induction ps) simp_all
  then show ?thesis by (simp add: getTotalPotAmount_def)
qed

lemma sum_snd_update:
  "sum_list (map snd (AList.update k v al))
     = sum_list (map snd al) + v - (case map_of al k of None \<Rightarrow> 0 | Some a \<Rightarrow> (a::int))"
  by (induction al) auto

lemma addContribution_total:
  "0 < amt \<Longrightarrow> \<exists>pot'. addContribution pot p amt = Inr pot' \<and> pot_total pot' = pot_total pot + amt"
  by (auto simp: addContribution_def pot_total_def sum_snd_update Let_def split: option.splits)

lemma update_append_fresh:
  "k \<notin> fst ` set pre \<Longrightarrow> AList.update k v (pre @ (k, r) # suf) = pre @ (k, v) # suf"
  by (induction pre) auto

lemma map_of_append_fresh:
  "k \<notin> fst ` set pre \<Longrightarrow> map_of (pre @ (k, r) # suf) k = Some r"
  by (induction pre) auto

lemma collectContributions_char:
  assumes "0 < amt" "distinct (map fst (pre @ suf))"
  shows "\<exists>pot'. collectContributions (map fst (filter (\<lambda>(pid, r). r \<ge> amt) suf)) amt pot (pre @ suf)
            = Inr (pot', pre @ map (pay amt) suf)
          \<and> pot_total pot' = pot_total pot + amt * int (length (filter (\<lambda>(pid, r). r \<ge> amt) suf))"
  using assms
proof (induction suf arbitrary: pre pot)
  case Nil
  then show ?case by simp
next
  case (Cons e suf)
  obtain p r where e: "e = (p, r)" by (cases e)
  have fresh: "p \<notin> fst ` set pre" using Cons.prems(2) e by auto
  show ?case
  proof (cases "r \<ge> amt")
    case True
    obtain pot1 where p1: "addContribution pot p amt = Inr pot1" "pot_total pot1 = pot_total pot + amt"
      using addContribution_total[OF Cons.prems(1)] by blast
    have d: "distinct (map fst ((pre @ [(p, r - amt)]) @ suf))"
      using Cons.prems(2) e by auto
    from Cons.IH[OF Cons.prems(1) d, of pot1]
    obtain pot' where ih: "collectContributions (map fst (filter (\<lambda>(pid, r). r \<ge> amt) suf)) amt pot1
                 ((pre @ [(p, r - amt)]) @ suf) = Inr (pot', (pre @ [(p, r - amt)]) @ map (pay amt) suf)"
         "pot_total pot' = pot_total pot1 + amt * int (length (filter (\<lambda>(pid, r). r \<ge> amt) suf))"
      by blast
    have m: "map_of (pre @ (p, r) # suf) p = Some r"
      using fresh by (rule map_of_append_fresh)
    have u: "AList.update p (r - amt) (pre @ (p, r) # suf) = pre @ (p, r - amt) # suf"
      using fresh by (rule update_append_fresh)
    have step: "collectContributions (p # map fst (filter (\<lambda>(pid, r). r \<ge> amt) suf)) amt pot
                  (pre @ (p, r) # suf)
              = collectContributions (map fst (filter (\<lambda>(pid, r). r \<ge> amt) suf)) amt pot1
                  (pre @ (p, r - amt) # suf)"
      by (simp only: collectContributions.simps p1(1) m u sum.case option.case)
    have "collectContributions (map fst (filter (\<lambda>(pid, r). r \<ge> amt) (e # suf))) amt pot
            (pre @ e # suf) = Inr (pot', pre @ map (pay amt) (e # suf))"
      using True e step ih(1) by (simp add: pay_def)
    moreover have "pot_total pot' = pot_total pot + amt * int (length (filter (\<lambda>(pid, r). r \<ge> amt) (e # suf)))"
      using True e p1(2) ih(2) by (simp add: algebra_simps)
    ultimately show ?thesis by blast
  next
    case False
    have d: "distinct (map fst ((pre @ [(p, r)]) @ suf))"
      using Cons.prems(2) e by auto
    from Cons.IH[OF Cons.prems(1) d, of pot]
    show ?thesis using False e by (simp add: pay_def)
  qed
qed

lemma foldl_remove_total:
  "pot_total (foldl removePlayerEligibility pot fs) = pot_total pot"
  by (induction fs arbitrary: pot) (simp_all add: removePlayerEligibility_def pot_total_def)

lemma sum_pay:
  "0 < amt \<Longrightarrow> sum_list (map snd (map (pay amt) rem))
     = sum_list (map snd rem) - amt * int (length (filter (\<lambda>(pid, r). r \<ge> amt) rem))"
  by (induction rem) (auto simp: pay_def algebra_simps)

lemma possum_pay:
  assumes "0 < amt" "\<forall>(p, r) \<in> set rem. r > 0 \<longrightarrow> r \<ge> amt"
  shows "sum_list (filter (\<lambda>r. r > 0) (map snd (map (pay amt) rem)))
        = sum_list (filter (\<lambda>r. r > 0) (map snd rem))
            - amt * int (length (filter (\<lambda>(pid, r). r \<ge> amt) rem))"
  using assms by (induction rem) (auto simp: pay_def algebra_simps)

lemma collectLevels_conserves:
  assumes "sorted_wrt (<) (prev # levels)"
      and "distinct (map fst rem)"
      and "\<forall>(p, r) \<in> set rem. r \<le> 0 \<or> r + prev \<in> set levels"
  shows "\<exists>pm'. collectLevels prev levels rem folded pm = Inr pm'
           \<and> getTotalPotAmount pm' = getTotalPotAmount pm + sum_list (filter (\<lambda>r. r > 0) (map snd rem))"
  using assms
proof (induction levels arbitrary: prev rem pm)
  case Nil
  then have "filter (\<lambda>r. r > 0) (map snd rem) = []"
    by (auto simp: filter_empty_conv)
  then show ?case by simp
next
  case (Cons cur levels)
  let ?amt = "cur - prev"
  let ?P = "\<lambda>(pid, r). r \<ge> ?amt"
  have amt: "0 < ?amt" using Cons.prems(1) by simp
  have sorted': "sorted_wrt (<) (cur # levels)" using Cons.prems(1) by simp
  have ge: "\<forall>l \<in> set levels. cur < l" using Cons.prems(1) by simp
  text \<open>a player who is still owed something reaches the current level\<close>
  have reach: "\<And>p r. (p, r) \<in> set rem \<Longrightarrow> r > 0 \<Longrightarrow> r \<ge> ?amt"
  proof -
    fix p r assume "(p, r) \<in> set rem" "r > 0"
    then have "r + prev \<in> set (cur # levels)" using Cons.prems(3) by fastforce
    then have "r + prev \<ge> cur" using ge by auto
    then show "r \<ge> ?amt" by simp
  qed
  have inv': "\<forall>(p, r) \<in> set (map (pay ?amt) rem). r \<le> 0 \<or> r + cur \<in> set levels"
  proof -
    have A: "r - ?amt \<le> 0 \<or> r - ?amt + cur \<in> set levels" if "(p, r) \<in> set rem" "?amt \<le> r" for p r
    proof -
      have "r > 0" using that(2) amt by simp
      then have "r + prev \<in> set (cur # levels)" using that(1) Cons.prems(3) by fastforce
      then show ?thesis by auto
    qed
    have B: "r \<le> 0" if "(p, r) \<in> set rem" "\<not> ?amt \<le> r" for p r
      using reach[OF that(1)] that(2) by force
    show ?thesis
    proof (clarify)
      fix p r' assume "(p, r') \<in> set (map (pay ?amt) rem)" "\<not> r' + cur \<in> set levels"
      then obtain q r where qr: "(q, r) \<in> set rem" "(p, r') = pay ?amt (q, r)" by auto
      show "r' \<le> 0"
      proof (cases "?amt \<le> r")
        case True
        then have "r' = r - ?amt" using qr(2) by (simp add: pay_def)
        then show ?thesis using A[OF qr(1) True] \<open>\<not> r' + cur \<in> set levels\<close> by blast
      next
        case False
        then have "r' = r" using qr(2) by (simp add: pay_def)
        then show ?thesis using B[OF qr(1) False] by simp
      qed
    qed
  qed
  have possum: "sum_list (filter (\<lambda>r. r > 0) (map snd (map (pay ?amt) rem)))
        = sum_list (filter (\<lambda>r. r > 0) (map snd rem)) - ?amt * int (length (filter ?P rem))"
    using reach by (intro possum_pay[OF amt]) auto
  show ?case
  proof (cases "map fst (filter ?P rem) = []")
    case True
    then have none: "filter ?P rem = []" by simp
    then have same: "map (pay ?amt) rem = rem"
      by (auto simp: filter_empty_conv pay_def intro!: map_idI)
    have inv0: "\<forall>(p, r) \<in> set rem. r \<le> 0 \<or> r + cur \<in> set levels"
      using inv' same by simp
    from Cons.IH[OF sorted' Cons.prems(2) inv0, of pm]
    show ?thesis using True by (simp add: Let_def)
  next
    case False
    from collectContributions_char[OF amt, of "[]" rem "new_Pot (filter (\<lambda>pid. pid \<notin> set folded) (map fst (filter ?P rem)))"]
    obtain pot where pot: "collectContributions (map fst (filter ?P rem)) ?amt
          (new_Pot (filter (\<lambda>pid. pid \<notin> set folded) (map fst (filter ?P rem)))) rem
            = Inr (pot, map (pay ?amt) rem)"
       "pot_total pot = ?amt * int (length (filter ?P rem))"
      using Cons.prems(2) by (auto simp: new_Pot_def pot_total_def)
    let ?pot' = "foldl removePlayerEligibility pot folded"
    let ?pm' = "(if pot_total (mainPot pm) = 0 then pm\<lparr>mainPot := ?pot'\<rparr>
                 else pm\<lparr>sidePots := sidePots pm @ [?pot']\<rparr>)"
    have tot: "getTotalPotAmount ?pm' = getTotalPotAmount pm + ?amt * int (length (filter ?P rem))"
      by (simp add: getTotalPotAmount_sum foldl_remove_total pot(2))
    have d': "distinct (map fst (map (pay ?amt) rem))"
    proof -
      have "map fst (map (pay ?amt) rem) = map fst rem"
        by (induction rem) (simp_all add: pay_def)
      then show ?thesis using Cons.prems(2) by (simp only:)
    qed
    from Cons.IH[OF sorted' d' inv', of ?pm']
    obtain pm'' where r: "collectLevels cur levels (map (pay ?amt) rem) folded ?pm' = Inr pm''"
      "getTotalPotAmount pm'' = getTotalPotAmount ?pm'
          + sum_list (filter (\<lambda>r. r > 0) (map snd (map (pay ?amt) rem)))"
      by blast
    have "collectLevels prev (cur # levels) rem folded pm = Inr pm''"
      using False pot(1) r(1) by (simp add: Let_def)
    moreover have "getTotalPotAmount pm'' = getTotalPotAmount pm + sum_list (filter (\<lambda>r. r > 0) (map snd rem))"
      using r(2) tot possum by simp
    ultimately show ?thesis by blast
  qed
qed

lemma set_new_Set: "set (new_Set xs) = set xs"
proof -
  have "\<And>s. set (foldl (\<lambda>s x. set_add x s) s xs) = set s \<union> set xs"
    by (induction xs) (auto simp: set_add_def)
  then show ?thesis by (simp add: new_Set_def)
qed

lemma distinct_new_Set: "distinct (new_Set xs)"
proof -
  have "\<And>s. distinct s \<Longrightarrow> distinct (foldl (\<lambda>s x. set_add x s) s xs)"
    by (induction xs) (auto simp: set_add_def)
  then show ?thesis by (simp add: new_Set_def)
qed

lemma uniqueBetAmounts_props:
  "sorted_wrt (<) (0 # uniqueBetAmounts bets)"
  "set (uniqueBetAmounts bets) = {a \<in> snd ` set bets. 0 < a}"
  by (auto simp: uniqueBetAmounts_def set_new_Set distinct_new_Set strict_sorted_iff)

lemma collectBets_conserves_pos:
  assumes "distinct (map fst playerBets)"
  shows "\<exists>pm'. collectBets pm playerBets allIn folded = Inr pm'
      \<and> getTotalPotAmount pm' = getTotalPotAmount pm + sum_list (filter (\<lambda>a. a > 0) (map snd playerBets))"
proof (cases "uniqueBetAmounts playerBets = []")
  case True
  then have "{a \<in> snd ` set playerBets. 0 < a} = {}" using uniqueBetAmounts_props(2)[of playerBets] by simp
  then have "filter (\<lambda>a. a > 0) (map snd playerBets) = []" by (auto simp: filter_empty_conv)
  then show ?thesis using True by (simp add: collectBets_def)
next
  case False
  have inv: "\<forall>(p, r) \<in> set playerBets. r \<le> 0 \<or> r + 0 \<in> set (uniqueBetAmounts playerBets)"
    by (force simp: uniqueBetAmounts_props(2))
  from collectLevels_conserves[OF uniqueBetAmounts_props(1) assms inv]
  show ?thesis using False by (auto simp: collectBets_def)
qed


lemma collectBets_conserves_single:
  assumes "distinct (map fst playerBets)" "\<forall>(pid, amt) \<in> set playerBets. 0 < amt"
  shows "\<exists>pm'. collectBets pm playerBets allIn folded = Inr pm'
      \<and> getTotalPotAmount pm' = getTotalPotAmount pm + sum_list (map snd playerBets)"
proof -
  have "filter (\<lambda>a. a > 0) (map snd playerBets) = map snd playerBets"
    using assms(2) by (auto simp: filter_id_conv)
  then show ?thesis using collectBets_conserves_pos[OF assms(1), of pm allIn folded] by simp
qed

lemma collectBetsAll_conserves:
  assumes "\<forall>(playerBets, allIn, folded) \<in> set calls.
             distinct (map fst playerBets) \<and> (\<forall>(pid, amt) \<in> set playerBets. 0 < amt)"
  shows "\<exists>pm'. collectBetsAll pm calls = Inr pm'
      \<and> getTotalPotAmount pm' = getTotalPotAmount pm
           + (\<Sum>(playerBets, allIn, folded)\<leftarrow>calls. sum_list (map snd playerBets))"
  using assms
proof (induction calls arbitrary: pm)
  case Nil
  then show ?case by simp
next
  case (Cons c calls)
  obtain bets allIn folded where c: "c = (bets, allIn, folded)" by (cases c)
  have ok: "distinct (map fst bets)" "\<forall>(pid, amt) \<in> set bets. 0 < amt"
    using Cons.prems c by auto
  obtain pm1 where pm1: "collectBets pm bets allIn folded = Inr pm1"
      "getTotalPotAmount pm1 = getTotalPotAmount pm + sum_list (map snd bets)"
    using collectBets_conserves_single[OF ok] by blast
  have rest: "\<forall>(playerBets, allIn, folded) \<in> set calls.
             distinct (map fst playerBets) \<and> (\<forall>(pid, amt) \<in> set playerBets. 0 < amt)"
    using Cons.prems by simp
  from Cons.IH[OF rest, of pm1] show ?case using pm1 c by auto
qed

lemma getTotalPotAmount_new [simp]: "getTotalPotAmount new_PotManager = 0"
  by (simp add: getTotalPotAmount_def new_PotManager_def new_Pot_def pot_total_def)

text \<open>
  On integer amounts \<open>collectBets\<close> keeps every chip. For every call with a map of
  strictly positive integer amounts, and any all-in and folded sets, the call returns
  normally and the sum of the main pot total and all side pot totals afterwards is its
  value before the call plus the sum of the amounts passed in; over the calls of a hand on
  a pot manager that was reset, that sum is the sum of everything ever passed in. (The
  keys of a \<open>Map\<close> are distinct; the association list says so with
  \<open>distinct (map fst playerBets)\<close>.)
\<close>

lemma collectBets_conserves_integers:
  "(\<forall>pm playerBets allIn folded.
      distinct (map fst playerBets) \<and> (\<forall>(pid, amt) \<in> set playerBets. 0 < amt) \<longrightarrow>
      (\<exists>pm'. collectBets pm playerBets allIn folded = Inr pm'
         \<and> getTotalPotAmount pm' = getTotalPotAmount pm + sum_list (map snd playerBets)))
   \<and> (\<forall>calls.
      (\<forall>(playerBets, allIn, folded) \<in> set calls.
         distinct (map fst playerBets) \<and> (\<forall>(pid, amt) \<in> set playerBets. 0 < amt)) \<longrightarrow>
      (\<exists>pm'. collectBetsAll new_PotManager calls = Inr pm'
         \<and> getTotalPotAmount pm'
             = (\<Sum>(playerBets, allIn, folded)\<leftarrow>calls. sum_list (map snd playerBets))))"
proof (intro conjI allI impI)
  fix pm and playerBets :: "(playerId \<times> int) list" and allIn folded :: "playerId list"
  assume "distinct (map fst playerBets) \<and> (\<forall>(pid, amt) \<in> set playerBets. 0 < amt)"
  then show "\<exists>pm'. collectBets pm playerBets allIn folded = Inr pm'
         \<and> getTotalPotAmount pm' = getTotalPotAmount pm + sum_list (map snd playerBets)"
    using collectBets_conserves_single by blast
next
  fix calls :: "((playerId \<times> int) list \<times> playerId list \<times> playerId list) list"
  assume "\<forall>(playerBets, allIn, folded) \<in> set calls.
         distinct (map fst playerBets) \<and> (\<forall>(pid, amt) \<in> set playerBets. 0 < amt)"
  from collectBetsAll_conserves[OF this, of new_PotManager]
  show "\<exists>pm'. collectBetsAll new_PotManager calls = Inr pm'
         \<and> getTotalPotAmount pm'
             = (\<Sum>(playerBets, allIn, folded)\<leftarrow>calls. sum_list (map snd playerBets))"
    by simp
qed

subsection \<open>Chips lost in collectBets on fractional amounts\<close>

text \<open>
  On integers of magnitude below \<open>2 ^ 53\<close> the arithmetic of doubles is the arithmetic
  of integers: nothing is rounded. This is what the integer amounts of the pot ledger
  rest on.
\<close>

lemma bitLength_bound: "0 \<le> m \<Longrightarrow> m < 2 ^ k \<Longrightarrow> bitLength m \<le> k"
proof (induction k arbitrary: m)
  case 0
  then have "m = 0" by simp
  then show ?case by (simp add: bitLength.simps)
next
  case (Suc k)
  show ?case
  proof (cases "m \<le> 0")
    case True
    then show ?thesis by (simp add: bitLength.simps)
  next
    case False
    have "m div 2 < 2 ^ k" using Suc.prems by simp
    moreover have "0 \<le> m div 2" using Suc.prems by simp
    ultimately have "bitLength (m div 2) \<le> k" using Suc.IH by blast
    then show ?thesis using False by (subst bitLength.simps) simp
  qed
qed

lemma roundToDouble_exact: "\<bar>m\<bar> < 2 ^ 53 \<Longrightarrow> roundToDouble (m, e) = (m, e)"
  using bitLength_bound[of "\<bar>m\<bar>" 53] by (simp add: roundToDouble_def)

lemma number_add_integers:
  "\<bar>a + b\<bar> < 2 ^ 53 \<Longrightarrow> number_add (a, 0) (b, 0) = (a + b, 0)"
  by (simp add: number_add_def aligned_def roundToDouble_exact)

lemma number_sub_integers:
  "\<bar>a - b\<bar> < 2 ^ 53 \<Longrightarrow> number_sub (a, 0) (b, 0) = (a - b, 0)"
  by (simp add: number_sub_def aligned_def roundToDouble_exact)

lemma number_compare_integers:
  "number_le (a, 0) (b, 0) \<longleftrightarrow> a \<le> b"
  "number_lt (a, 0) (b, 0) \<longleftrightarrow> a < b"
  "number_eq (a, 0) (b, 0) \<longleftrightarrow> a = b"
  by (simp_all add: number_le_def number_lt_def number_eq_def aligned_def)

text \<open>
  The decimal literals of the example maps, and three roundings: \<open>0.1 + 0.2\<close> is
  \<open>0.30000000000000004\<close>; \<open>1.1 - 0.2\<close> is \<open>0.9000000000000001\<close>, whereas
  \<open>(1.1 - 0.1) - 0.1\<close> is \<open>0.9\<close>, one unit of the last bit less.
\<close>

lemma decimal_literals:
  "nearestDouble (7205759403792794, - 56) 1 10"
  "nearestDouble (7205759403792794, - 55) 2 10"
  "nearestDouble (4953959590107546, - 52) 11 10"
  "nearestDouble (5944751508129055, - 53) 66 100"
  by (simp_all add: nearestDouble_def)

lemma number_rounding_examples:
  "number_eq (number_add (7205759403792794, - 56) (7205759403792794, - 55))
             (5404319552844596, - 54)"
  "number_eq (number_sub (4953959590107546, - 52) (7205759403792794, - 55))
             (8106479329266894, - 53)"
  "number_eq (number_sub (number_sub (4953959590107546, - 52) (7205759403792794, - 56))
                (7205759403792794, - 56))
             (8106479329266893, - 53)"
  by code_simp+

lemma sizedBets_values:
  "sizedBets = [(''p1'', (8359806808306484, - 48)), (''p2'', (8592023664092775, - 45)),
                (''p3'', (185, - 1))]"
  by code_simp

text \<open>
  On whole chips the ledger on numbers builds the same pots as the ledger on integers
  and loses nothing: 50, 200 and 200 give a main pot of 150 and a side pot of 300.
\<close>

lemma collectBets_num_whole_chips:
  "collectBets_num new_PotManager_num
     [(''p1'', number_of_int 50), (''p2'', number_of_int 200), (''p3'', number_of_int 200)]
     [''p1''] []
     = Inr \<lparr>mainPot_num =
              \<lparr>contributions_num = [(''p1'', (50, 0)), (''p2'', (50, 0)), (''p3'', (50, 0))],
               eligiblePlayerIds_num = [''p1'', ''p2'', ''p3'']\<rparr>,
            sidePots_num =
              [\<lparr>contributions_num = [(''p2'', (150, 0)), (''p3'', (150, 0))],
                eligiblePlayerIds_num = [''p2'', ''p3'']\<rparr>]\<rparr>
   \<and> getTotalPotAmount_num
         \<lparr>mainPot_num =
            \<lparr>contributions_num = [(''p1'', (50, 0)), (''p2'', (50, 0)), (''p3'', (50, 0))],
             eligiblePlayerIds_num = [''p1'', ''p2'', ''p3'']\<rparr>,
          sidePots_num =
            [\<lparr>contributions_num = [(''p2'', (150, 0)), (''p3'', (150, 0))],
              eligiblePlayerIds_num = [''p2'', ''p3'']\<rparr>]\<rparr> = (450, 0)"
  by code_simp

text \<open>
  Claim C2. For every call of \<open>collectBets\<close> with a map of strictly positive
  contribution amounts, and any all-in and folded sets, the sum of the main pot total and
  all side pot totals after the call is its value before the call plus the sum of the
  amounts passed in. The code does not keep this when the amounts are not integers. On a
  new pot manager, with nobody all-in or folded:

  \<^item> \<open>{p1: 0.1, p2: 0.2, p3: 1.1}\<close>. The levels are 0.1, 0.2 and 1.1. After two levels
    the main pot holds 0.1 from each player, the side pot 0.1 from p2 and p3, and p3 has
    \<open>(1.1 - 0.1) - 0.1 = 0.9\<close> left. The third level asks for
    \<open>1.1 - 0.2 = 0.9000000000000001\<close>; \<open>remaining >= contributionAmount\<close> is false for
    every player, the level is skipped, and no pot is built for what p3 has left. The
    pots total 0.5: less than the 1.4 passed in, less even than p3's 1.1 alone.

  \<^item> \<open>{p1: 45 * 0.66, p2: 370 * 0.66, p3: 37 * 2.5}\<close>. Again the last level is
    skipped: one side pot, the pots total 214.7, and 151.7 of p2's 244.2 is in no pot.
\<close>

theorem collectBets_loses_fractional_chips:
  "collectBets_num new_PotManager_num fractionalBets [] []
     = Inr \<lparr>mainPot_num =
              \<lparr>contributions_num =
                 [(''p1'', (7205759403792794, - 56)), (''p2'', (7205759403792794, - 56)),
                  (''p3'', (7205759403792794, - 56))],
               eligiblePlayerIds_num = [''p1'', ''p2'', ''p3'']\<rparr>,
            sidePots_num =
              [\<lparr>contributions_num =
                  [(''p2'', (7205759403792794, - 56)), (''p3'', (7205759403792794, - 56))],
                eligiblePlayerIds_num = [''p2'', ''p3'']\<rparr>]\<rparr>
   \<and> (case collectBets_num new_PotManager_num fractionalBets [] [] of
         Inl e \<Rightarrow> False
       | Inr pm \<Rightarrow>
           number_eq (getTotalPotAmount_num pm) (1, - 1)
           \<and> number_lt (getTotalPotAmount_num pm)
                (number_add (getTotalPotAmount_num new_PotManager_num)
                   (foldl number_add (0, 0) (map snd fractionalBets)))
           \<and> number_lt (getTotalPotAmount_num pm) (4953959590107546, - 52))
   \<and> (case collectBets_num new_PotManager_num sizedBets [] [] of
         Inl e \<Rightarrow> False
       | Inr pm \<Rightarrow>
           length (sidePots_num pm) = 1
           \<and> number_eq (getTotalPotAmount_num pm) (7554084687472230, - 45)
           \<and> number_lt (getTotalPotAmount_num pm)
                (number_add (getTotalPotAmount_num new_PotManager_num)
                   (foldl number_add (0, 0) (map snd sizedBets)))
           \<and> number_lt (getTotalPotAmount_num pm) (8592023664092775, - 45))"
  by code_simp

subsection \<open>Distribution\<close>

lemma winningsOf_update:
  "winningsOf (AList.update k v w) p = (if p = k then v else winningsOf w p)"
  by (simp add: winningsOf_def update_conv')

lemma creditWinners_winningsOf:
  "winningsOf (creditWinners i ws q r w) p =
     winningsOf w p + q * int (count_list ws p)
       + (if i = 0 \<and> ws \<noteq> [] \<and> hd ws = p then r else 0)"
proof (induction ws arbitrary: i w)
  case Nil
  then show ?case by simp
next
  case (Cons x xs)
  show ?case
    by (simp add: Cons.IH winningsOf_update Let_def algebra_simps)
       (simp add: winningsOf_def)
qed

lemma js_rem_nonneg: "0 \<le> a \<Longrightarrow> 0 < b \<Longrightarrow> js_rem a b = a mod b"
  by (cases "a = 0") (simp_all add: js_rem_def)

lemma distributeSinglePot_share:
  assumes "0 \<le> pot_total pot"
  shows "winningsOf (distributeSinglePot pot winners w) p = winningsOf w p + potShare pot winners p"
proof (cases "pot_total pot = 0")
  case True
  then show ?thesis by (simp add: distributeSinglePot_def potShare_def Let_def)
next
  case False
  show ?thesis
  proof (cases "filter (isPlayerEligible pot) winners = []")
    case True
    then show ?thesis using False by (simp add: distributeSinglePot_def potShare_def Let_def)
  next
    case ne: False
    then have "0 < int (length (filter (isPlayerEligible pot) winners))" by simp
    then have "js_rem (pot_total pot) (int (length (filter (isPlayerEligible pot) winners)))
             = pot_total pot mod int (length (filter (isPlayerEligible pot) winners))"
      using assms js_rem_nonneg by blast
    then show ?thesis using False ne
      by (auto simp add: distributeSinglePot_def potShare_def Let_def creditWinners_winningsOf)
  qed
qed

lemma foldl_distribute:
  assumes "\<forall>pot\<in>set pots. 0 \<le> pot_total pot"
  shows "winningsOf (foldl (\<lambda>winnings sidePot. distributeSinglePot sidePot winners winnings) w pots) p
       = winningsOf w p + (\<Sum>pot\<leftarrow>pots. potShare pot winners p)"
  using assms
  by (induction pots arbitrary: w) (simp_all add: distributeSinglePot_share)

lemma sum_count_remdups:
  "(\<Sum>p\<leftarrow>remdups xs. int (count_list xs p)) = int (length xs)"
proof -
  have "(\<Sum>p\<leftarrow>remdups xs. int (count_list xs p)) = (\<Sum>p\<in>set xs. int (count_list xs p))"
    by (simp add: sum_list_distinct_conv_sum_set)
  also have "\<dots> = int (\<Sum>p\<in>set xs. count_list xs p)" by simp
  also have "\<dots> = int (length xs)" by (simp add: sum_count_set)
  finally show ?thesis .
qed

lemma sum_hd_remdups:
  "xs \<noteq> [] \<Longrightarrow> (\<Sum>p\<leftarrow>remdups xs. (if p = hd xs then r else 0)) = (r::int)"
proof -
  assume ne: "xs \<noteq> []"
  have "(\<Sum>p\<leftarrow>remdups xs. (if p = hd xs then r else 0)) = (\<Sum>p\<in>set xs. (if p = hd xs then r else 0))"
    by (simp add: sum_list_distinct_conv_sum_set)
  also have "\<dots> = r" using ne by (simp add: sum.delta')
  finally show ?thesis .
qed

lemma potShare_pays_total:
  assumes "filter (isPlayerEligible pot) winners \<noteq> []"
  shows "(\<Sum>p\<leftarrow>remdups (filter (isPlayerEligible pot) winners). potShare pot winners p) = pot_total pot"
proof -
  let ?ew = "filter (isPlayerEligible pot) winners"
  let ?n = "int (length ?ew)"
  have "(\<Sum>p\<leftarrow>remdups ?ew. potShare pot winners p)
      = (\<Sum>p\<leftarrow>remdups ?ew. (pot_total pot div ?n) * int (count_list ?ew p)
                               + (if p = hd ?ew then pot_total pot mod ?n else 0))"
    using assms by (simp add: potShare_def Let_def)
  also have "\<dots> = (pot_total pot div ?n) * (\<Sum>p\<leftarrow>remdups ?ew. int (count_list ?ew p))
                 + (\<Sum>p\<leftarrow>remdups ?ew. (if p = hd ?ew then pot_total pot mod ?n else 0))"
    by (simp add: sum_list_addf sum_list_const_mult)
  also have "\<dots> = (pot_total pot div ?n) * ?n + pot_total pot mod ?n"
    by (simp only: sum_count_remdups sum_hd_remdups[OF assms])
  also have "\<dots> = pot_total pot" by simp
  finally show ?thesis .
qed


text \<open>The pots that \<open>collectBets\<close> builds never have a negative total.\<close>

lemma sum_snd_nonneg: "\<forall>(p, a) \<in> set al. 0 < (a::int) \<Longrightarrow> 0 \<le> sum_list (map snd al)"
  by (induction al) auto

lemma potPositive_total: "potPositive pot \<Longrightarrow> 0 \<le> pot_total pot"
  unfolding potPositive_def pot_total_def by (rule sum_snd_nonneg)

lemma set_update_subset: "set (AList.update k v al) \<subseteq> insert (k, v) (set al)"
  by (induction al) auto

lemma addContribution_positive:
  assumes "potPositive pot" "addContribution pot p a = Inr pot'"
  shows "potPositive pot'"
proof -
  let ?cur = "case map_of (contributions pot) p of None \<Rightarrow> 0 | Some c \<Rightarrow> c"
  have a: "0 < a" and c: "contributions pot' = AList.update p (?cur + a) (contributions pot)"
    using assms(2) by (auto simp: addContribution_def Let_def split: if_splits)
  have "0 \<le> ?cur"
  proof (cases "map_of (contributions pot) p")
    case None
    then show ?thesis by simp
  next
    case (Some c)
    then have "(p, c) \<in> set (contributions pot)" by (rule map_of_SomeD)
    then show ?thesis using assms(1) Some by (auto simp: potPositive_def)
  qed
  then have "0 < ?cur + a" using a by simp
  then show ?thesis
    unfolding potPositive_def c using set_update_subset[of p "?cur + a" "contributions pot"] assms(1)
    by (auto simp: potPositive_def)
qed

lemma collectContributions_positive:
  "potPositive pot \<Longrightarrow> collectContributions ps amt pot rem = Inr (pot', rem') \<Longrightarrow> potPositive pot'"
proof (induction ps arbitrary: pot rem)
  case Nil
  then show ?case by simp
next
  case (Cons p ps)
  from Cons.prems(2) obtain pot1 r where
    s: "addContribution pot p amt = Inr pot1" "map_of rem p = Some r"
       "collectContributions ps amt pot1 (AList.update p (r - amt) rem) = Inr (pot', rem')"
    by (auto split: sum.splits option.splits)
  show ?case using Cons.IH[OF addContribution_positive[OF Cons.prems(1) s(1)] s(3)] .
qed

lemma foldl_remove_contributions:
  "contributions (foldl removePlayerEligibility pot fs) = contributions pot"
  by (induction fs arbitrary: pot) (simp_all add: removePlayerEligibility_def)

lemma foldl_remove_positive:
  "potPositive pot \<Longrightarrow> potPositive (foldl removePlayerEligibility pot fs)"
  by (simp add: potPositive_def foldl_remove_contributions)

lemma collectLevels_positive:
  assumes "\<forall>pot \<in> set (mainPot pm # sidePots pm). potPositive pot"
      and "collectLevels prev levels rem folded pm = Inr pm'"
  shows "\<forall>pot \<in> set (mainPot pm' # sidePots pm'). potPositive pot"
  using assms
proof (induction levels arbitrary: prev rem pm)
  case Nil
  then show ?case by simp
next
  case (Cons cur levels)
  let ?amt = "cur - prev"
  let ?cp = "map fst (filter (\<lambda>(pid, remaining). remaining \<ge> ?amt) rem)"
  show ?case
  proof (cases "?cp = []")
    case True
    then have "collectLevels cur levels rem folded pm = Inr pm'"
      using Cons.prems(2) by (simp add: Let_def)
    then show ?thesis using Cons.IH[OF Cons.prems(1)] by blast
  next
    case False
    from Cons.prems(2) False obtain pot rem' where
      c: "collectContributions ?cp ?amt (new_Pot (filter (\<lambda>pid. pid \<notin> set folded) ?cp)) rem
            = Inr (pot, rem')"
      by (auto simp: Let_def split: sum.splits)
    let ?pot' = "foldl removePlayerEligibility pot folded"
    let ?pm1 = "(if pot_total (mainPot pm) = 0 then pm\<lparr>mainPot := ?pot'\<rparr>
                 else pm\<lparr>sidePots := sidePots pm @ [?pot']\<rparr>)"
    have r: "collectLevels cur levels rem' folded ?pm1 = Inr pm'"
      using Cons.prems(2) False c by (simp add: Let_def)
    have "potPositive (new_Pot (filter (\<lambda>pid. pid \<notin> set folded) ?cp))"
      by (simp add: potPositive_def new_Pot_def)
    then have "potPositive ?pot'"
      using collectContributions_positive[OF _ c] foldl_remove_positive by blast
    then have "\<forall>pot \<in> set (mainPot ?pm1 # sidePots ?pm1). potPositive pot"
      using Cons.prems(1) by auto
    from Cons.IH[OF this r] show ?thesis .
  qed
qed

lemma collectBets_positive:
  assumes "\<forall>pot \<in> set (mainPot pm # sidePots pm). potPositive pot"
      and "collectBets pm playerBets allIn folded = Inr pm'"
  shows "\<forall>pot \<in> set (mainPot pm' # sidePots pm'). 0 \<le> pot_total pot"
proof -
  have "\<forall>pot \<in> set (mainPot pm' # sidePots pm'). potPositive pot"
    using assms collectLevels_positive[OF assms(1)]
    by (auto simp: collectBets_def split: if_splits)
  then show ?thesis using potPositive_total by blast
qed

lemma new_PotManager_positive:
  "\<forall>pot \<in> set (mainPot new_PotManager # sidePots new_PotManager). potPositive pot"
  by (simp add: new_PotManager_def new_Pot_def potPositive_def)


text \<open>
  Claim C5. \<open>distributePots\<close> credits every player the sum of their shares of the
  pots, where in a pot with total \<open>T\<close> and \<open>n\<close> eligible winners the first eligible
  winner in the supplied order has the share \<open>T div n + T mod n\<close> and every other
  eligible winner \<open>T div n\<close>; the shares of such a pot add up to exactly \<open>T\<close>. Pot totals
  are never negative, since \<open>addContribution\<close> only accepts positive amounts
  (\<open>collectBets_positive\<close>).
\<close>

theorem distributePots_shares:
  assumes "\<forall>pot \<in> set (mainPot pm # sidePots pm). 0 \<le> pot_total pot"
  shows "(\<forall>pid. winningsOf (distributePots pm winners) pid
                 = (\<Sum>pot\<leftarrow>mainPot pm # sidePots pm. potShare pot winners pid))
       \<and> (\<forall>pot \<in> set (mainPot pm # sidePots pm).
             filter (isPlayerEligible pot) winners \<noteq> [] \<longrightarrow>
             (\<Sum>pid\<leftarrow>remdups (filter (isPlayerEligible pot) winners). potShare pot winners pid)
               = pot_total pot)"
proof (intro conjI allI ballI impI)
  fix pid
  have m: "0 \<le> pot_total (mainPot pm)" and s: "\<forall>pot\<in>set (sidePots pm). 0 \<le> pot_total pot"
    using assms by simp_all
  have "winningsOf (distributePots pm winners) pid
      = winningsOf (distributeSinglePot (mainPot pm) winners []) pid
          + (\<Sum>pot\<leftarrow>sidePots pm. potShare pot winners pid)"
    unfolding distributePots_def by (rule foldl_distribute[OF s])
  also have "winningsOf (distributeSinglePot (mainPot pm) winners []) pid
      = potShare (mainPot pm) winners pid"
    using distributeSinglePot_share[OF m, of winners "[]" pid] by (simp add: winningsOf_def)
  finally show "winningsOf (distributePots pm winners) pid
                 = (\<Sum>pot\<leftarrow>mainPot pm # sidePots pm. potShare pot winners pid)"
    by simp
next
  fix pot
  assume "filter (isPlayerEligible pot) winners \<noteq> []"
  then show "(\<Sum>pid\<leftarrow>remdups (filter (isPlayerEligible pot) winners). potShare pot winners pid)
               = pot_total pot"
    by (rule potShare_pays_total)
qed


theorem distributePots_shares_witness:
  "0 \<le> pot_total \<lparr>contributions = [(''p1'', 100), (''p2'', 100), (''p3'', 101)],
                    eligiblePlayerIds = [''p1'', ''p2'', ''p3'']\<rparr>
   \<and> 0 \<le> pot_total \<lparr>contributions = [(''p2'', 50), (''p3'', 50)],
                      eligiblePlayerIds = [''p2'', ''p3'']\<rparr>
   \<and> winningsOf (distributePots
        \<lparr>mainPot = \<lparr>contributions = [(''p1'', 100), (''p2'', 100), (''p3'', 101)],
                     eligiblePlayerIds = [''p1'', ''p2'', ''p3'']\<rparr>,
         sidePots = [\<lparr>contributions = [(''p2'', 50), (''p3'', 50)],
                      eligiblePlayerIds = [''p2'', ''p3'']\<rparr>]\<rparr> [''p3'', ''p1'']) ''p3'' = 151 + 100
   \<and> winningsOf (distributePots
        \<lparr>mainPot = \<lparr>contributions = [(''p1'', 100), (''p2'', 100), (''p3'', 101)],
                     eligiblePlayerIds = [''p1'', ''p2'', ''p3'']\<rparr>,
         sidePots = [\<lparr>contributions = [(''p2'', 50), (''p3'', 50)],
                      eligiblePlayerIds = [''p2'', ''p3'']\<rparr>]\<rparr> [''p3'', ''p1'']) ''p1'' = 150"
proof -
  let ?pm = "\<lparr>mainPot = \<lparr>contributions = [(''p1'', 100), (''p2'', 100), (''p3'', 101)],
                           eligiblePlayerIds = [''p1'', ''p2'', ''p3'']\<rparr>,
               sidePots = [\<lparr>contributions = [(''p2'', 50), (''p3'', 50)],
                            eligiblePlayerIds = [''p2'', ''p3'']\<rparr>]\<rparr>"
  have h: "\<forall>pot \<in> set (mainPot ?pm # sidePots ?pm). 0 \<le> pot_total pot"
    by (simp add: pot_total_def)
  from distributePots_shares[OF h, of "[''p3'', ''p1'']"] h
  show ?thesis
    by (simp add: potShare_def isPlayerEligible_def pot_total_def)
qed

section \<open>Properties of the hand ranking\<close>

lemma find_upt_None: "find P [0..<n] = None \<longleftrightarrow> (\<forall>i<n. \<not> P i)"
  by (auto simp: find_None_iff)

lemma find_upt_Some: "find P [0..<n] = Some i \<longleftrightarrow> i < n \<and> P i \<and> (\<forall>j<i. \<not> P j)"
  by (auto simp: find_Some_iff)

lemma kickerAt_beyond: "max (length a) (length b) \<le> i \<Longrightarrow> kickerAt a i = kickerAt b i"
  by (simp add: kickerAt_def)

lemma kickerCompare_zero: "kickerCompare a b = 0 \<longleftrightarrow> kickersAgree a b"
proof (cases "find (\<lambda>i. kickerAt a i \<noteq> kickerAt b i) [0 ..< max (length a) (length b)]")
  case None
  then have "\<forall>i < max (length a) (length b). kickerAt a i = kickerAt b i"
    by (simp add: find_upt_None)
  then have "kickersAgree a b"
    unfolding kickersAgree_def using kickerAt_beyond[of a b] by (metis not_le)
  then show ?thesis using None by (simp add: kickerCompare_def)
next
  case (Some i)
  then have "kickerAt a i \<noteq> kickerAt b i" by (simp add: find_upt_Some)
  then show ?thesis using Some by (auto simp: kickerCompare_def kickersAgree_def)
qed

lemma kickerCompare_neg: "kickerCompare a b < 0 \<longleftrightarrow> kickersBelow a b"
proof (cases "find (\<lambda>i. kickerAt a i \<noteq> kickerAt b i) [0 ..< max (length a) (length b)]")
  case None
  then have "\<forall>i < max (length a) (length b). kickerAt a i = kickerAt b i"
    by (simp add: find_upt_None)
  then have "\<forall>i. kickerAt a i = kickerAt b i"
    using kickerAt_beyond[of a b] by (metis not_le)
  then have "\<not> kickersBelow a b" by (simp add: kickersBelow_def)
  then show ?thesis using None by (simp add: kickerCompare_def)
next
  case (Some i)
  then have i: "kickerAt a i \<noteq> kickerAt b i" "\<forall>j<i. kickerAt a j = kickerAt b j"
    by (simp_all add: find_upt_Some)
  have v: "kickerCompare a b = kickerAt a i - kickerAt b i"
    using Some by (simp add: kickerCompare_def)
  show ?thesis
  proof
    assume "kickerCompare a b < 0"
    then have "kickerAt a i < kickerAt b i" using v by simp
    then show "kickersBelow a b" using i(2) unfolding kickersBelow_def by blast
  next
    assume "kickersBelow a b"
    then obtain k where k: "kickerAt a k < kickerAt b k" "\<forall>j<k. kickerAt a j = kickerAt b j"
      unfolding kickersBelow_def by blast
    have "k = i"
    proof (rule ccontr)
      assume "k \<noteq> i"
      then consider "k < i" | "i < k" by linarith
      then show False using i k by cases auto
    qed
    then show "kickerCompare a b < 0" using k(1) v by simp
  qed
qed

lemma kickerCompare_flip: "kickerCompare b a = - kickerCompare a b"
proof -
  have p: "(\<lambda>i. kickerAt b i \<noteq> kickerAt a i) = (\<lambda>i. kickerAt a i \<noteq> kickerAt b i)" by auto
  show ?thesis
    unfolding kickerCompare_def p max.commute[of "length b" "length a"]
    by (simp split: option.splits)
qed

lemma kickersBelow_trans: "kickersBelow a b \<Longrightarrow> kickersBelow b c \<Longrightarrow> kickersBelow a c"
proof -
  assume "kickersBelow a b" "kickersBelow b c"
  then obtain i j where
    i: "kickerAt a i < kickerAt b i" "\<forall>k<i. kickerAt a k = kickerAt b k" and
    j: "kickerAt b j < kickerAt c j" "\<forall>k<j. kickerAt b k = kickerAt c k"
    unfolding kickersBelow_def by blast
  consider "i < j" | "i = j" | "j < i" by linarith
  then show ?thesis
  proof cases
    case 1
    then have "kickerAt a i < kickerAt c i" "\<forall>k<i. kickerAt a k = kickerAt c k"
      using i j by auto
    then show ?thesis unfolding kickersBelow_def by blast
  next
    case 2
    then have "kickerAt a i < kickerAt c i" "\<forall>k<i. kickerAt a k = kickerAt c k"
      using i j by auto
    then show ?thesis unfolding kickersBelow_def by blast
  next
    case 3
    then have "kickerAt a j < kickerAt c j" "\<forall>k<j. kickerAt a k = kickerAt c k"
      using i j by auto
    then show ?thesis unfolding kickersBelow_def by blast
  qed
qed

lemma kickersBelow_agree: "kickersBelow a b \<Longrightarrow> kickersAgree b c \<Longrightarrow> kickersBelow a c"
  unfolding kickersBelow_def kickersAgree_def by metis

lemma kickersAgree_below: "kickersAgree a b \<Longrightarrow> kickersBelow b c \<Longrightarrow> kickersBelow a c"
  unfolding kickersBelow_def kickersAgree_def by metis

lemma kickersAgree_trans: "kickersAgree a b \<Longrightarrow> kickersAgree b c \<Longrightarrow> kickersAgree a c"
  unfolding kickersAgree_def by simp

lemma HandRank_value_inj: "HandRank_value x = HandRank_value y \<longleftrightarrow> x = y"
  by (cases x; cases y) simp_all

lemma compareTo_kickers:
  "compareTo A B =
     (if handRank A \<noteq> handRank B
      then HandRank_value (handRank A) - HandRank_value (handRank B)
      else if primaryValue A \<noteq> primaryValue B then primaryValue A - primaryValue B
      else if secondaryValue A \<noteq> secondaryValue B then secondaryValue A - secondaryValue B
      else kickerCompare (kickers A) (kickers B))"
  unfolding compareTo_def kickerCompare_def by (rule refl)

lemma compareTo_flip: "compareTo B A = - compareTo A B"
  using kickerCompare_flip[of "kickers B" "kickers A"]
  by (auto simp: compareTo_kickers)

lemma compareTo_neg: "compareTo A B < 0 \<longleftrightarrow> handBelow A B"
  using HandRank_value_inj[of "handRank A" "handRank B"]
  by (auto simp: compareTo_kickers handBelow_def kickerCompare_neg)

lemma compareTo_zero: "compareTo A B = 0 \<longleftrightarrow> handTied A B"
  using HandRank_value_inj[of "handRank A" "handRank B"]
  by (auto simp: compareTo_kickers handTied_def kickerCompare_zero)

lemma handBelow_trans: "handBelow A B \<Longrightarrow> handBelow B C \<Longrightarrow> handBelow A C"
  unfolding handBelow_def using kickersBelow_trans[of "kickers A" "kickers B" "kickers C"]
  by (smt (verit, best))

lemma handBelow_tied: "handBelow A B \<Longrightarrow> handTied B C \<Longrightarrow> handBelow A C"
  unfolding handBelow_def handTied_def
  using kickersBelow_agree[of "kickers A" "kickers B" "kickers C"] by auto

lemma handTied_below: "handTied A B \<Longrightarrow> handBelow B C \<Longrightarrow> handBelow A C"
  unfolding handBelow_def handTied_def
  using kickersAgree_below[of "kickers A" "kickers B" "kickers C"] by auto

lemma handTied_trans: "handTied A B \<Longrightarrow> handTied B C \<Longrightarrow> handTied A C"
  unfolding handTied_def using kickersAgree_trans[of "kickers A" "kickers B" "kickers C"] by auto

lemma kickersAgree_same_length:
  "length a = length b \<Longrightarrow> kickersAgree a b \<longleftrightarrow> a = b"
  by (auto simp: kickersAgree_def kickerAt_def list_eq_iff_nth_eq)

text \<open>
  The values of the cards are 2 to 14, never 0. Two kicker arrays without a 0 that agree
  index by index, a missing kicker reading as 0, are the same array: where one of them
  ends the other one ends too, since it could only go on with a 0.
\<close>

lemma RANK_VALUES_range: "2 \<le> RANK_VALUES r \<and> RANK_VALUES r \<le> 14"
  by (cases r) simp_all

lemma card_value_range: "2 \<le> card_value c \<and> card_value c \<le> 14"
  by (simp add: card_value_def RANK_VALUES_range)

lemma cardValued_no_zero: "cardValued ks \<Longrightarrow> 0 \<notin> set ks"
  by (auto simp: cardValued_def list_all_iff)

lemma kickersAgree_no_zero:
  assumes "kickersAgree a b" and "0 \<notin> set a" and "0 \<notin> set b"
  shows "a = b"
proof -
  have "length a = length b"
  proof (rule ccontr)
    assume "length a \<noteq> length b"
    then consider "length a < length b" | "length b < length a" by linarith
    then show False
    proof cases
      case 1
      then have "kickerAt a (length a) = 0" "kickerAt b (length a) = b ! length a"
        by (simp_all add: kickerAt_def)
      moreover have "b ! length a \<in> set b" using 1 by simp
      ultimately show False using assms(1,3) by (metis kickersAgree_def)
    next
      case 2
      then have "kickerAt b (length b) = 0" "kickerAt a (length b) = a ! length b"
        by (simp_all add: kickerAt_def)
      moreover have "a ! length b \<in> set a" using 2 by simp
      ultimately show False using assms(1,2) by (metis kickersAgree_def)
    qed
  qed
  then show ?thesis using assms(1) by (simp add: kickersAgree_same_length)
qed

lemma compareTo_zero_exact:
  assumes "0 \<notin> set (kickers A)" and "0 \<notin> set (kickers B)"
  shows "compareTo A B = 0 \<longleftrightarrow>
           handRank A = handRank B \<and> primaryValue A = primaryValue B
           \<and> secondaryValue A = secondaryValue B \<and> kickers A = kickers B"
proof
  assume "compareTo A B = 0"
  then have t: "handTied A B" by (simp add: compareTo_zero)
  then have "kickers A = kickers B"
    using kickersAgree_no_zero[OF _ assms] by (simp add: handTied_def)
  then show "handRank A = handRank B \<and> primaryValue A = primaryValue B
           \<and> secondaryValue A = secondaryValue B \<and> kickers A = kickers B"
    using t by (simp add: handTied_def)
next
  assume "handRank A = handRank B \<and> primaryValue A = primaryValue B
           \<and> secondaryValue A = secondaryValue B \<and> kickers A = kickers B"
  then show "compareTo A B = 0"
    by (simp add: compareTo_zero handTied_def kickersAgree_def)
qed


section \<open>Properties of the hand evaluator\<close>

lemma sortDescending_unique:
  assumes "distinct xs" "set xs = set ys" "sorted (map uminus ys)" "distinct ys"
  shows "sortDescending xs = ys"
proof -
  let ?zs = "sort_key (\<lambda>v. - v) xs"
  have inj: "inj (uminus :: int \<Rightarrow> int)" by (simp add: inj_on_def)
  have "sorted (map uminus ?zs)" by (rule sorted_sort_key)
  moreover have "distinct (map uminus ?zs)"
    using assms(1) inj by (simp add: distinct_map inj_on_def)
  moreover have "distinct (map uminus ys)"
    using assms(4) by (simp add: distinct_map inj_on_def)
  moreover have "set (map uminus ?zs) = set (map uminus ys)"
    using assms(2) by simp
  ultimately have "map uminus ?zs = map uminus ys"
    using assms(3) sorted_distinct_set_unique by blast
  then have "?zs = ys" using inj by (simp add: inj_map_eq_map)
  then show ?thesis by (simp add: sortDescending_def)
qed

lemma values_of_sorted:
  "set (map card_value (sortCardsDescending cs)) = RANK_VALUES ` rank ` set cs"
  by (auto simp: sortCardsDescending_def card_value_def)

lemma straight_values:
  assumes "rank ` set cs = set rs" "distinct vs" "sorted (map uminus vs)"
          "set vs = RANK_VALUES ` set rs"
  shows "sortDescending (new_Set (map card_value (sortCardsDescending cs))) = vs"
proof (rule sortDescending_unique)
  show "distinct (new_Set (map card_value (sortCardsDescending cs)))" by (rule distinct_new_Set)
  show "set (new_Set (map card_value (sortCardsDescending cs))) = set vs"
    using assms(1,4) by (simp only: set_new_Set values_of_sorted)
  show "sorted (map uminus vs)" by (rule assms(3))
  show "distinct vs" by (rule assms(2))
qed

lemma wheel_high_card:
  assumes "rank ` set cs = {Ace, Five, Four, Three, Two}"
  shows "getStraightHighCard (sortCardsDescending cs) = Some 5"
proof -
  have r: "rank ` set cs = set [Ace, Five, Four, Three, Two]" using assms by simp
  have d: "distinct [14, 5, 4, 3, 2::int]" by simp
  have s: "sorted (map uminus [14, 5, 4, 3, 2::int])" by simp
  have v: "set [14, 5, 4, 3, 2::int] = RANK_VALUES ` set [Ace, Five, Four, Three, Two]" by simp
  have "sortDescending (new_Set (map card_value (sortCardsDescending cs))) = [14, 5, 4, 3, 2]"
    by (rule straight_values[OF r d s v])
  then show ?thesis by (simp add: getStraightHighCard_def)
qed

lemma no_wraparound_high_card:
  assumes "rank ` set cs = {Queen, King, Ace, Two, Three}"
  shows "getStraightHighCard (sortCardsDescending cs) = None"
proof -
  have r: "rank ` set cs = set [Queen, King, Ace, Two, Three]" using assms by simp
  have d: "distinct [14, 13, 12, 3, 2::int]" by simp
  have s: "sorted (map uminus [14, 13, 12, 3, 2::int])" by simp
  have v: "set [14, 13, 12, 3, 2::int] = RANK_VALUES ` set [Queen, King, Ace, Two, Three]"
    by (simp add: insert_commute)
  have "sortDescending (new_Set (map card_value (sortCardsDescending cs))) = [14, 13, 12, 3, 2]"
    by (rule straight_values[OF r d s v])
  then show ?thesis by (simp add: getStraightHighCard_def)
qed

lemma isFlush_one_suit:
  assumes "\<forall>c \<in> set cs. suit c = s"
  shows "isFlush (sortCardsDescending cs)"
proof -
  have "\<forall>c \<in> set (sortCardsDescending cs). suit c = s"
    using assms by (simp add: sortCardsDescending_def)
  then show ?thesis
    by (cases "sortCardsDescending cs") (simp_all add: isFlush_def list_all_iff)
qed


lemma checkFourOfAKind_rank: "checkFourOfAKind cs = Some h \<Longrightarrow> handRank h = FourOfAKind"
  unfolding checkFourOfAKind_def new_HandRanking_def
  by (cases "find (\<lambda>(r, groupCards). length groupCards = 4) (groupByRank cs)") auto

lemma checkFullHouse_rank: "checkFullHouse cs = Some h \<Longrightarrow> handRank h = FullHouse"
  unfolding checkFullHouse_def new_HandRanking_def Let_def
  by (auto split: prod.splits option.splits)

lemma checkFlush_rank: "checkFlush cs = Some h \<Longrightarrow> handRank h = Flush"
  unfolding checkFlush_def new_HandRanking_def Let_def
  by (cases "isFlush cs") auto

lemma checkThreeOfAKind_rank: "checkThreeOfAKind cs = Some h \<Longrightarrow> handRank h = ThreeOfAKind"
  unfolding checkThreeOfAKind_def new_HandRanking_def
  by (cases "find (\<lambda>(r, groupCards). length groupCards = 3) (groupByRank cs)") auto

lemma checkTwoPair_rank: "checkTwoPair cs = Some h \<Longrightarrow> handRank h = TwoPair"
  unfolding checkTwoPair_def new_HandRanking_def Let_def
  by (cases "length (map fst (filter (\<lambda>(r, groupCards). length groupCards = 2) (groupByRank cs))) = 2")
     auto

lemma checkPair_rank: "checkPair cs = Some h \<Longrightarrow> handRank h = OnePair"
  unfolding checkPair_def new_HandRanking_def
  by (cases "find (\<lambda>(r, groupCards). length groupCards = 2) (groupByRank cs)") auto

lemma checkHighCard_rank: "handRank (checkHighCard cs) = HighCard"
  by (simp add: checkHighCard_def new_HandRanking_def Let_def)

lemma evaluateHand_not_straight:
  assumes "length cs = 5" "getStraightHighCard (sortCardsDescending cs) = None"
  shows "\<exists>h. evaluateHand cs = Inr h \<and> handRank h \<noteq> Straight \<and> handRank h \<noteq> StraightFlush
             \<and> handRank h \<noteq> RoyalFlush"
proof -
  let ?s = "sortCardsDescending cs"
  have n: "checkRoyalFlush ?s = None" "checkStraightFlush ?s = None" "checkStraight ?s = None"
    using assms(2) by (simp_all add: checkRoyalFlush_def checkStraightFlush_def checkStraight_def)
  have "\<exists>h. evaluateHand cs = Inr h
          \<and> handRank h \<in> {FourOfAKind, FullHouse, Flush, ThreeOfAKind, TwoPair, OnePair, HighCard}"
    unfolding evaluateHand_def Let_def
    using assms(1) n
      checkFourOfAKind_rank[of ?s] checkFullHouse_rank[of ?s] checkFlush_rank[of ?s]
      checkThreeOfAKind_rank[of ?s] checkTwoPair_rank[of ?s] checkPair_rank[of ?s]
      checkHighCard_rank[of ?s]
    by (simp split: option.splits)
  then show ?thesis by auto
qed

text \<open>
  Claim C6. The five-card evaluator applied to A, 5, 4, 3, 2 of one suit, in any order,
  returns category StraightFlush with primaryValue 5; applied to Q, K, A, 2, 3, in any
  order and of any suits, it returns neither Straight nor StraightFlush.
\<close>

theorem evaluateHand_wheel_no_wraparound:
  "(length cs = 5 \<and> rank ` set cs = {Ace, Five, Four, Three, Two} \<and> (\<forall>c \<in> set cs. suit c = s)
      \<longrightarrow> (\<exists>h. evaluateHand cs = Inr h \<and> handRank h = StraightFlush \<and> primaryValue h = 5))
   \<and> (length cs = 5 \<and> rank ` set cs = {Queen, King, Ace, Two, Three}
      \<longrightarrow> (\<exists>h. evaluateHand cs = Inr h \<and> handRank h \<noteq> Straight \<and> handRank h \<noteq> StraightFlush))"
proof (intro conjI impI)
  assume h: "length cs = 5 \<and> rank ` set cs = {Ace, Five, Four, Three, Two} \<and> (\<forall>c \<in> set cs. suit c = s)"
  let ?s = "sortCardsDescending cs"
  have hc: "getStraightHighCard ?s = Some 5" using h wheel_high_card by blast
  have fl: "isFlush ?s" using h isFlush_one_suit by blast
  have sf: "checkStraightFlush ?s = Some (new_HandRanking StraightFlush ?s 5 0 [])"
    using hc fl by (simp add: checkStraightFlush_def)
  have rf: "checkRoyalFlush ?s = None"
    using sf by (simp add: checkRoyalFlush_def new_HandRanking_def)
  have len: "length cs = 5" using h by blast
  have "evaluateHand cs = Inr (new_HandRanking StraightFlush ?s 5 0 [])"
    unfolding evaluateHand_def Let_def using len sf rf by simp
  then show "\<exists>h. evaluateHand cs = Inr h \<and> handRank h = StraightFlush \<and> primaryValue h = 5"
    by (simp add: new_HandRanking_def)
next
  assume h: "length cs = 5 \<and> rank ` set cs = {Queen, King, Ace, Two, Three}"
  then have "length cs = 5" "getStraightHighCard (sortCardsDescending cs) = None"
    using no_wraparound_high_card[of cs] by blast+
  from evaluateHand_not_straight[OF this]
  show "\<exists>h. evaluateHand cs = Inr h \<and> handRank h \<noteq> Straight \<and> handRank h \<noteq> StraightFlush"
    by blast
qed


theorem evaluateHand_wheel_no_wraparound_witness:
  "(\<exists>h. evaluateHand [\<lparr>rank = Five, suit = Clubs\<rparr>, \<lparr>rank = Four, suit = Clubs\<rparr>,
                       \<lparr>rank = Three, suit = Clubs\<rparr>, \<lparr>rank = Two, suit = Clubs\<rparr>,
                       \<lparr>rank = Ace, suit = Clubs\<rparr>] = Inr h
        \<and> handRank h = StraightFlush \<and> primaryValue h = 5)
   \<and> (\<exists>h. evaluateHand [\<lparr>rank = Queen, suit = Spades\<rparr>, \<lparr>rank = King, suit = Hearts\<rparr>,
                         \<lparr>rank = Ace, suit = Diamonds\<rparr>, \<lparr>rank = Two, suit = Clubs\<rparr>,
                         \<lparr>rank = Three, suit = Spades\<rparr>] = Inr h
        \<and> handRank h \<noteq> Straight \<and> handRank h \<noteq> StraightFlush)"
  using evaluateHand_wheel_no_wraparound
      [of "[\<lparr>rank = Five, suit = Clubs\<rparr>, \<lparr>rank = Four, suit = Clubs\<rparr>,
            \<lparr>rank = Three, suit = Clubs\<rparr>, \<lparr>rank = Two, suit = Clubs\<rparr>,
            \<lparr>rank = Ace, suit = Clubs\<rparr>]" Clubs]
    evaluateHand_wheel_no_wraparound
      [of "[\<lparr>rank = Queen, suit = Spades\<rparr>, \<lparr>rank = King, suit = Hearts\<rparr>,
            \<lparr>rank = Ace, suit = Diamonds\<rparr>, \<lparr>rank = Two, suit = Clubs\<rparr>,
            \<lparr>rank = Three, suit = Spades\<rparr>]" Clubs]
  by (simp add: insert_commute)

section \<open>The order on evaluated hands\<close>

lemma length_sortDescending [simp]: "length (sortDescending vs) = length vs"
  by (simp add: sortDescending_def)

lemma length_sortCardsDescending [simp]: "length (sortCardsDescending cs) = length cs"
  by (simp add: sortCardsDescending_def)

text \<open>the groups of groupByRank\<close>

lemma groupByRank_step:
  assumes "distinct (map fst groups)"
      and "\<forall>(r, g) \<in> set groups. g = filter (\<lambda>c. card_value c = r) seen"
      and "fst ` set groups = card_value ` set seen"
  shows "distinct (map fst (foldl (\<lambda>groups c.
              let existing = (case map_of groups (card_value c) of None \<Rightarrow> [] | Some g \<Rightarrow> g)
              in AList.update (card_value c) (existing @ [c]) groups) groups cs))
       \<and> (\<forall>(r, g) \<in> set (foldl (\<lambda>groups c.
              let existing = (case map_of groups (card_value c) of None \<Rightarrow> [] | Some g \<Rightarrow> g)
              in AList.update (card_value c) (existing @ [c]) groups) groups cs).
            g = filter (\<lambda>c. card_value c = r) (seen @ cs))"
  using assms
proof (induction cs arbitrary: groups seen)
  case Nil
  then show ?case by simp
next
  case (Cons c cs)
  let ?v = "card_value c"
  let ?existing = "case map_of groups ?v of None \<Rightarrow> [] | Some g \<Rightarrow> g"
  let ?groups' = "AList.update ?v (?existing @ [c]) groups"
  have ex: "?existing = filter (\<lambda>d. card_value d = ?v) seen"
  proof (cases "map_of groups ?v")
    case None
    then have "?v \<notin> fst ` set groups" by (simp add: map_of_eq_None_iff)
    then have "?v \<notin> card_value ` set seen" using Cons.prems(3) by simp
    then have "filter (\<lambda>d. card_value d = ?v) seen = []"
      unfolding filter_empty_conv by (metis imageI)
    then show ?thesis using None by simp
  next
    case (Some g)
    then have "(?v, g) \<in> set groups" by (rule map_of_SomeD)
    then show ?thesis using Cons.prems(2) Some by auto
  qed
  have d': "distinct (map fst ?groups')" using Cons.prems(1) by (rule distinct_update)
  have m': "map_of ?groups' = (map_of groups)(?v \<mapsto> ?existing @ [c])" by (rule update_conv')
  have g': "\<forall>(r, g) \<in> set ?groups'. g = filter (\<lambda>d. card_value d = r) (seen @ [c])"
  proof (clarify)
    fix r g assume in': "(r, g) \<in> set ?groups'"
    then have mo: "map_of ?groups' r = Some g" using d' by simp
    show "g = filter (\<lambda>d. card_value d = r) (seen @ [c])"
    proof (cases "r = ?v")
      case True
      then show ?thesis using mo m' ex by simp
    next
      case False
      then have "map_of groups r = Some g" using mo m' by simp
      then have "(r, g) \<in> set groups" by (rule map_of_SomeD)
      then show ?thesis using Cons.prems(2) False by auto
    qed
  qed
  have f': "fst ` set ?groups' = card_value ` set (seen @ [c])"
    using Cons.prems(3) by (simp add: dom_update)
  from Cons.IH[OF d' g' f'] show ?case by simp
qed

lemma groupByRank_groups:
  "(r, g) \<in> set (groupByRank cs) \<Longrightarrow> g = filter (\<lambda>c. card_value c = r) cs"
  using groupByRank_step[of "[]" "[]" cs] by (auto simp: groupByRank_def)

lemma length_kickersWithout:
  assumes "(r, g) \<in> set (groupByRank cs)"
  shows "length (kickersWithout r cs) + length g = length cs"
proof -
  have g: "g = filter (\<lambda>c. card_value c = r) cs" using assms by (rule groupByRank_groups)
  have "length (filter (\<lambda>c. card_value c = r) cs) + length (filter (\<lambda>c. card_value c \<noteq> r) cs)
        = length cs"
    using sum_length_filter_compl[of "\<lambda>c. card_value c = r" cs] by simp
  then show ?thesis using g by (simp add: kickersWithout_def)
qed

lemma find_in_set: "find P xs = Some x \<Longrightarrow> x \<in> set xs \<and> P x"
  by (induction xs) (auto split: if_splits)

lemma checkThreeOfAKind_kickers:
  "checkThreeOfAKind cs = Some h \<Longrightarrow> length (kickers h) + 3 = length cs"
proof -
  assume a: "checkThreeOfAKind cs = Some h"
  then obtain r g where f: "find (\<lambda>(r, groupCards). length groupCards = 3) (groupByRank cs) = Some (r, g)"
    and h: "h = new_HandRanking ThreeOfAKind cs r 0 (kickersWithout r cs)"
    by (auto simp: checkThreeOfAKind_def split: option.splits)
  have "(r, g) \<in> set (groupByRank cs)" "length g = 3" using find_in_set[OF f] by auto
  then show ?thesis using length_kickersWithout[of r g cs] h by (simp add: new_HandRanking_def)
qed

lemma checkPair_kickers:
  "checkPair cs = Some h \<Longrightarrow> length (kickers h) + 2 = length cs"
proof -
  assume a: "checkPair cs = Some h"
  then obtain r g where f: "find (\<lambda>(r, groupCards). length groupCards = 2) (groupByRank cs) = Some (r, g)"
    and h: "h = new_HandRanking OnePair cs r 0 (kickersWithout r cs)"
    by (auto simp: checkPair_def split: option.splits)
  have "(r, g) \<in> set (groupByRank cs)" "length g = 2" using find_in_set[OF f] by auto
  then show ?thesis using length_kickersWithout[of r g cs] h by (simp add: new_HandRanking_def)
qed

lemma check_kickers:
  "checkRoyalFlush cs = Some h \<Longrightarrow> handRank h = RoyalFlush \<and> kickers h = []"
  "checkStraightFlush cs = Some h \<Longrightarrow> handRank h = StraightFlush \<and> kickers h = []"
  "checkStraight cs = Some h \<Longrightarrow> handRank h = Straight \<and> kickers h = []"
  unfolding checkRoyalFlush_def checkStraightFlush_def checkStraight_def new_HandRanking_def
  by (auto split: option.splits if_splits)

lemma checkFourOfAKind_kickers: "checkFourOfAKind cs = Some h \<Longrightarrow> length (kickers h) = 1"
  unfolding checkFourOfAKind_def new_HandRanking_def
  by (cases "find (\<lambda>(r, groupCards). length groupCards = 4) (groupByRank cs)") auto

lemma checkFullHouse_kickers: "checkFullHouse cs = Some h \<Longrightarrow> kickers h = []"
  unfolding checkFullHouse_def new_HandRanking_def Let_def
  by (auto split: prod.splits option.splits)

lemma checkFlush_kickers: "checkFlush cs = Some h \<Longrightarrow> length (kickers h) = length cs - 1"
  unfolding checkFlush_def new_HandRanking_def Let_def
  by (cases "isFlush cs") auto

lemma checkTwoPair_kickers: "checkTwoPair cs = Some h \<Longrightarrow> length (kickers h) = 1"
  unfolding checkTwoPair_def new_HandRanking_def Let_def
  by (cases "length (map fst (filter (\<lambda>(r, groupCards). length groupCards = 2) (groupByRank cs))) = 2")
     auto

lemma checkHighCard_kickers: "length (kickers (checkHighCard cs)) = length cs - 1"
  by (simp add: checkHighCard_def new_HandRanking_def Let_def)


lemma check_kickerCount:
  assumes "length cs = 5"
  shows "checkRoyalFlush cs = Some h \<Longrightarrow> length (kickers h) = kickerCount (handRank h)"
    and "checkStraightFlush cs = Some h \<Longrightarrow> length (kickers h) = kickerCount (handRank h)"
    and "checkFourOfAKind cs = Some h \<Longrightarrow> length (kickers h) = kickerCount (handRank h)"
    and "checkFullHouse cs = Some h \<Longrightarrow> length (kickers h) = kickerCount (handRank h)"
    and "checkFlush cs = Some h \<Longrightarrow> length (kickers h) = kickerCount (handRank h)"
    and "checkStraight cs = Some h \<Longrightarrow> length (kickers h) = kickerCount (handRank h)"
    and "checkThreeOfAKind cs = Some h \<Longrightarrow> length (kickers h) = kickerCount (handRank h)"
    and "checkTwoPair cs = Some h \<Longrightarrow> length (kickers h) = kickerCount (handRank h)"
    and "checkPair cs = Some h \<Longrightarrow> length (kickers h) = kickerCount (handRank h)"
    and "length (kickers (checkHighCard cs)) = kickerCount (handRank (checkHighCard cs))"
proof -
  show "checkRoyalFlush cs = Some h \<Longrightarrow> length (kickers h) = kickerCount (handRank h)"
    using check_kickers(1)[of cs h] by simp
  show "checkStraightFlush cs = Some h \<Longrightarrow> length (kickers h) = kickerCount (handRank h)"
    using check_kickers(2)[of cs h] by simp
  show "checkFourOfAKind cs = Some h \<Longrightarrow> length (kickers h) = kickerCount (handRank h)"
    using checkFourOfAKind_kickers[of cs h] checkFourOfAKind_rank[of cs h] by simp
  show "checkFullHouse cs = Some h \<Longrightarrow> length (kickers h) = kickerCount (handRank h)"
    using checkFullHouse_kickers[of cs h] checkFullHouse_rank[of cs h] by simp
  show "checkFlush cs = Some h \<Longrightarrow> length (kickers h) = kickerCount (handRank h)"
    using checkFlush_kickers[of cs h] checkFlush_rank[of cs h] assms by simp
  show "checkStraight cs = Some h \<Longrightarrow> length (kickers h) = kickerCount (handRank h)"
    using check_kickers(3)[of cs h] by simp
  show "checkThreeOfAKind cs = Some h \<Longrightarrow> length (kickers h) = kickerCount (handRank h)"
    using checkThreeOfAKind_kickers[of cs h] checkThreeOfAKind_rank[of cs h] assms by simp
  show "checkTwoPair cs = Some h \<Longrightarrow> length (kickers h) = kickerCount (handRank h)"
    using checkTwoPair_kickers[of cs h] checkTwoPair_rank[of cs h] by simp
  show "checkPair cs = Some h \<Longrightarrow> length (kickers h) = kickerCount (handRank h)"
    using checkPair_kickers[of cs h] checkPair_rank[of cs h] assms by simp
  show "length (kickers (checkHighCard cs)) = kickerCount (handRank (checkHighCard cs))"
    using checkHighCard_kickers[of cs] checkHighCard_rank[of cs] assms by simp
qed

lemma evaluateHand_kickerCount:
  assumes "evaluateHand cs = Inr h"
  shows "length (kickers h) = kickerCount (handRank h)"
proof -
  let ?s = "sortCardsDescending cs"
  have len: "length cs = 5" using assms by (auto simp: evaluateHand_def split: if_splits)
  then have l: "length ?s = 5" by simp
  have "h \<in> {x. checkRoyalFlush ?s = Some x} \<union> {x. checkStraightFlush ?s = Some x}
          \<union> {x. checkFourOfAKind ?s = Some x} \<union> {x. checkFullHouse ?s = Some x}
          \<union> {x. checkFlush ?s = Some x} \<union> {x. checkStraight ?s = Some x}
          \<union> {x. checkThreeOfAKind ?s = Some x} \<union> {x. checkTwoPair ?s = Some x}
          \<union> {x. checkPair ?s = Some x} \<union> {checkHighCard ?s}"
    using assms len unfolding evaluateHand_def Let_def
    by (simp split: option.splits)
  then show ?thesis using check_kickerCount[OF l] by blast
qed

lemma bestOfCombinations_from_evaluateHand:
  assumes "bestOfCombinations best combos = Inr (Some h)"
      and "\<forall>b. best = Some b \<longrightarrow> (\<exists>cs. evaluateHand cs = Inr b)"
  shows "\<exists>cs. evaluateHand cs = Inr h"
  using assms
proof (induction combos arbitrary: best)
  case Nil
  then show ?case by simp
next
  case (Cons combo combos)
  from Cons.prems(1) obtain hand where e: "evaluateHand combo = Inr hand"
    by (auto split: sum.splits)
  let ?next = "(case best of None \<Rightarrow> Some hand
                | Some b \<Rightarrow> if compareTo hand b > 0 then Some hand else Some b)"
  have r: "bestOfCombinations ?next combos = Inr (Some h)"
    using Cons.prems(1) e by (auto split: option.splits if_splits)
  have "\<forall>b. ?next = Some b \<longrightarrow> (\<exists>cs. evaluateHand cs = Inr b)"
    using e Cons.prems(2) by (auto split: option.splits if_splits)
  from Cons.IH[OF r this] show ?case .
qed

lemma evaluateBest7CardHand_from_evaluateHand:
  "evaluateBest7CardHand cs = Inr h \<Longrightarrow> \<exists>combo. evaluateHand combo = Inr h"
proof -
  assume "evaluateBest7CardHand cs = Inr h"
  then have "bestOfCombinations None (get5CardCombinations cs) = Inr (Some h)"
    by (auto simp: evaluateBest7CardHand_def split: if_splits sum.splits option.splits)
  then show ?thesis using bestOfCombinations_from_evaluateHand by blast
qed

lemma evaluated_kickerCount:
  "evaluateHand cs = Inr h \<or> evaluateBest7CardHand cs = Inr h \<Longrightarrow>
     length (kickers h) = kickerCount (handRank h)"
  using evaluateHand_kickerCount evaluateBest7CardHand_from_evaluateHand by blast

lemma compareTo_zero_evaluated:
  assumes "evaluateHand csA = Inr A \<or> evaluateBest7CardHand csA = Inr A"
      and "evaluateHand csB = Inr B \<or> evaluateBest7CardHand csB = Inr B"
  shows "compareTo A B = 0 \<longleftrightarrow>
           handRank A = handRank B \<and> primaryValue A = primaryValue B
           \<and> secondaryValue A = secondaryValue B \<and> kickers A = kickers B"
proof
  assume z: "compareTo A B = 0"
  then have t: "handTied A B" by (simp add: compareTo_zero)
  then have "handRank A = handRank B" by (simp add: handTied_def)
  then have "length (kickers A) = length (kickers B)"
    using evaluated_kickerCount[OF assms(1)] evaluated_kickerCount[OF assms(2)] by simp
  then show "handRank A = handRank B \<and> primaryValue A = primaryValue B
           \<and> secondaryValue A = secondaryValue B \<and> kickers A = kickers B"
    using t by (simp add: handTied_def kickersAgree_same_length)
next
  assume "handRank A = handRank B \<and> primaryValue A = primaryValue B
           \<and> secondaryValue A = secondaryValue B \<and> kickers A = kickers B"
  then show "compareTo A B = 0"
    by (simp add: compareTo_zero handTied_def kickersAgree_def)
qed

text \<open>
  Every kicker that the evaluator records is the value of a card. The kicker of four of a
  kind and of two pair is found by \<open>cards.find(...)?.value ?? 0\<close>; among five cards the
  search always succeeds, so the default 0 is never taken.
\<close>

lemma set_sortDescending [simp]: "set (sortDescending vs) = set vs"
  by (simp add: sortDescending_def)

lemma cardValued_values: "set ks \<subseteq> card_value ` set cs \<Longrightarrow> cardValued ks"
  using card_value_range by (auto simp: cardValued_def list_all_iff)

lemma cardValued_kickersWithout: "cardValued (kickersWithout r cs)"
  by (rule cardValued_values) (auto simp: kickersWithout_def)

lemma cardValued_drop: "cardValued (drop n (sortDescending (map card_value cs)))"
proof (rule cardValued_values)
  have "set (drop n (sortDescending (map card_value cs))) \<subseteq> set (sortDescending (map card_value cs))"
    by (rule set_drop_subset)
  then show "set (drop n (sortDescending (map card_value cs))) \<subseteq> card_value ` set cs" by simp
qed

lemma cardValued_findValueOr0:
  assumes "\<exists>c \<in> set cs. P c"
  shows "cardValued [findValueOr0 P cs]"
proof -
  from assms obtain c where "find P cs = Some c"
    by (cases "find P cs") (auto simp: find_None_iff)
  then show ?thesis using card_value_range[of c] by (simp add: findValueOr0_def cardValued_def)
qed

lemma groupByRank_distinct: "distinct (map fst (groupByRank cs))"
  using groupByRank_step[of "[]" "[]" cs] by (simp add: groupByRank_def)

lemma checkFourOfAKind_cardValued:
  assumes "checkFourOfAKind cs = Some h" and "length cs = 5"
  shows "cardValued (kickers h)"
proof -
  from assms(1) obtain r g where f: "find (\<lambda>(r, groupCards). length groupCards = 4) (groupByRank cs) = Some (r, g)"
    and h: "h = new_HandRanking FourOfAKind cs r 0 [findValueOr0 (\<lambda>c. card_value c \<noteq> r) cs]"
    by (auto simp: checkFourOfAKind_def split: option.splits)
  have "(r, g) \<in> set (groupByRank cs)" "length g = 4" using find_in_set[OF f] by auto
  then have "length (filter (\<lambda>c. card_value c = r) cs) = 4" using groupByRank_groups by blast
  then have "filter (\<lambda>c. card_value c = r) cs \<noteq> cs" using assms(2) by auto
  then have "\<exists>c \<in> set cs. card_value c \<noteq> r" by (auto simp: filter_id_conv)
  then show ?thesis using h cardValued_findValueOr0 by (simp add: new_HandRanking_def)
qed

lemma checkTwoPair_cardValued:
  assumes "checkTwoPair cs = Some h" and "length cs = 5"
  shows "cardValued (kickers h)"
proof -
  let ?two = "filter (\<lambda>(r, groupCards). length groupCards = 2) (groupByRank cs)"
  let ?pairs = "map fst ?two"
  have l: "length ?pairs = 2" and
     h: "h = new_HandRanking TwoPair cs (sortDescending ?pairs ! 0) (sortDescending ?pairs ! 1)
              [findValueOr0 (\<lambda>c. card_value c \<notin> set (sortDescending ?pairs)) cs]"
    using assms(1) unfolding checkTwoPair_def Let_def by (auto split: if_splits)
  from l obtain e1 e2 where two: "?two = [e1, e2]"
    by (cases ?two; cases "tl ?two"; cases "tl (tl ?two)") auto
  obtain r1 g1 r2 g2 where e: "e1 = (r1, g1)" "e2 = (r2, g2)" by (cases e1; cases e2) auto
  have "distinct ?pairs" using groupByRank_distinct[of cs] by (rule distinct_map_filter)
  then have ne: "r1 \<noteq> r2" using two e by simp
  have "(r1, g1) \<in> set ?two" "(r2, g2) \<in> set ?two" using two e by simp_all
  then have in1: "(r1, g1) \<in> set (groupByRank cs)" "length g1 = 2"
        and in2: "(r2, g2) \<in> set (groupByRank cs)" "length g2 = 2" by auto
  have c1: "length (filter (\<lambda>c. card_value c = r1) cs) = 2" using in1 groupByRank_groups by blast
  have c2: "length (filter (\<lambda>c. card_value c = r2) cs) = 2" using in2 groupByRank_groups by blast
  have "\<exists>c \<in> set cs. card_value c \<notin> {r1, r2}"
  proof (rule ccontr)
    assume "\<not> (\<exists>c \<in> set cs. card_value c \<notin> {r1, r2})"
    then have all: "\<forall>c \<in> set cs. card_value c = r1 \<or> card_value c = r2" by auto
    have "filter (\<lambda>c. \<not> card_value c = r1) cs = filter (\<lambda>c. card_value c = r2) cs"
      using all ne by (intro filter_cong) auto
    then have "length cs = 2 + 2"
      using sum_length_filter_compl[of "\<lambda>c. card_value c = r1" cs] c1 c2 by simp
    then show False using assms(2) by simp
  qed
  moreover have "set (sortDescending ?pairs) = {r1, r2}" using two e by simp
  ultimately have "\<exists>c \<in> set cs. card_value c \<notin> set (sortDescending ?pairs)" by simp
  then show ?thesis using h cardValued_findValueOr0[of cs "\<lambda>c. card_value c \<notin> set (sortDescending ?pairs)"]
    by (simp add: new_HandRanking_def)
qed

lemma check_cardValued:
  assumes "length cs = 5"
  shows "checkRoyalFlush cs = Some h \<Longrightarrow> cardValued (kickers h)"
    and "checkStraightFlush cs = Some h \<Longrightarrow> cardValued (kickers h)"
    and "checkFourOfAKind cs = Some h \<Longrightarrow> cardValued (kickers h)"
    and "checkFullHouse cs = Some h \<Longrightarrow> cardValued (kickers h)"
    and "checkFlush cs = Some h \<Longrightarrow> cardValued (kickers h)"
    and "checkStraight cs = Some h \<Longrightarrow> cardValued (kickers h)"
    and "checkThreeOfAKind cs = Some h \<Longrightarrow> cardValued (kickers h)"
    and "checkTwoPair cs = Some h \<Longrightarrow> cardValued (kickers h)"
    and "checkPair cs = Some h \<Longrightarrow> cardValued (kickers h)"
    and "cardValued (kickers (checkHighCard cs))"
proof -
  show "checkRoyalFlush cs = Some h \<Longrightarrow> cardValued (kickers h)"
    using check_kickers(1)[of cs h] by (simp add: cardValued_def)
  show "checkStraightFlush cs = Some h \<Longrightarrow> cardValued (kickers h)"
    using check_kickers(2)[of cs h] by (simp add: cardValued_def)
  show "checkFourOfAKind cs = Some h \<Longrightarrow> cardValued (kickers h)"
    using checkFourOfAKind_cardValued assms by blast
  show "checkFullHouse cs = Some h \<Longrightarrow> cardValued (kickers h)"
    using checkFullHouse_kickers[of cs h] by (simp add: cardValued_def)
  show "checkFlush cs = Some h \<Longrightarrow> cardValued (kickers h)"
    unfolding checkFlush_def Let_def
    by (cases "isFlush cs") (auto simp: new_HandRanking_def cardValued_drop)
  show "checkStraight cs = Some h \<Longrightarrow> cardValued (kickers h)"
    using check_kickers(3)[of cs h] by (simp add: cardValued_def)
  show "checkThreeOfAKind cs = Some h \<Longrightarrow> cardValued (kickers h)"
    unfolding checkThreeOfAKind_def
    by (cases "find (\<lambda>(r, groupCards). length groupCards = 3) (groupByRank cs)")
       (auto simp: new_HandRanking_def cardValued_kickersWithout)
  show "checkTwoPair cs = Some h \<Longrightarrow> cardValued (kickers h)"
    using checkTwoPair_cardValued assms by blast
  show "checkPair cs = Some h \<Longrightarrow> cardValued (kickers h)"
    unfolding checkPair_def
    by (cases "find (\<lambda>(r, groupCards). length groupCards = 2) (groupByRank cs)")
       (auto simp: new_HandRanking_def cardValued_kickersWithout)
  show "cardValued (kickers (checkHighCard cs))"
    by (simp add: checkHighCard_def Let_def new_HandRanking_def cardValued_drop)
qed

lemma evaluateHand_cardValued:
  assumes "evaluateHand cs = Inr h"
  shows "cardValued (kickers h)"
proof -
  let ?s = "sortCardsDescending cs"
  have len: "length cs = 5" using assms by (auto simp: evaluateHand_def split: if_splits)
  then have l: "length ?s = 5" by simp
  have "h \<in> {x. checkRoyalFlush ?s = Some x} \<union> {x. checkStraightFlush ?s = Some x}
          \<union> {x. checkFourOfAKind ?s = Some x} \<union> {x. checkFullHouse ?s = Some x}
          \<union> {x. checkFlush ?s = Some x} \<union> {x. checkStraight ?s = Some x}
          \<union> {x. checkThreeOfAKind ?s = Some x} \<union> {x. checkTwoPair ?s = Some x}
          \<union> {x. checkPair ?s = Some x} \<union> {checkHighCard ?s}"
    using assms len unfolding evaluateHand_def Let_def
    by (simp split: option.splits)
  then show ?thesis using check_cardValued[OF l] by blast
qed

lemma evaluated_cardValued:
  "evaluateHand cs = Inr h \<or> evaluateBest7CardHand cs = Inr h \<Longrightarrow> cardValued (kickers h)"
  using evaluateHand_cardValued evaluateBest7CardHand_from_evaluateHand by blast

text \<open>
  The rankings that \<open>Dealer.determineWinners\<close> returns are those of the evaluator, or
  the one it builds itself for a win by folds, which has no kickers.
\<close>

lemma set_insertBy: "set (insertBy cmp x xs) = insert x (set xs)"
  by (induction xs) auto

lemma set_sortBy: "set (sortBy cmp xs) = set xs"
  unfolding sortBy_def by (induction xs) (simp_all add: set_insertBy)

lemma evaluatePlayerHand_cardValued:
  "evaluatePlayerHand allCards = Inr h \<Longrightarrow> cardValued (kickers h)"
  unfolding evaluatePlayerHand_def using evaluated_cardValued by (auto split: if_splits)

lemma evaluatePlayers_cardValued:
  "evaluatePlayers community players = Inr playerHands \<Longrightarrow>
     (seat, p, h) \<in> set playerHands \<Longrightarrow> cardValued (kickers h)"
proof (induction players arbitrary: playerHands)
  case Nil
  then show ?case by simp
next
  case (Cons sp players)
  obtain s q where sp: "sp = (s, q)" by (cases sp)
  from Cons.prems(1) obtain hand rest where
      e: "evaluatePlayerHand (getHoleCards q @ community) = Inr hand"
      and r: "evaluatePlayers community players = Inr rest"
      and ph: "playerHands = (s, q, hand) # rest"
    unfolding sp by (auto simp: Let_def split: if_splits sum.splits)
  show ?case
  proof (cases "(seat, p, h) = (s, q, hand)")
    case True
    then show ?thesis using evaluatePlayerHand_cardValued[OF e] by simp
  next
    case False
    have "(seat, p, h) \<in> set rest" using False Cons.prems(2) ph by auto
    then show ?thesis using Cons.IH[OF r] by blast
  qed
qed

lemma determineWinners_cardValued:
  assumes "determineWinners t = Inr ws" and "(seat, p, h) \<in> set ws"
  shows "cardValued (kickers h)"
proof -
  let ?players = "filter (\<lambda>(seat, p). \<not> hasFolded p) (occupiedSeats t)"
  show ?thesis
  proof (cases ?players)
    case Nil
    then show ?thesis using assms by (simp add: determineWinners_def)
  next
    case (Cons sp rest)
    obtain s q where sp: "sp = (s, q)" by (cases sp)
    show ?thesis
    proof (cases rest)
      case Nil
      have "h = new_HandRanking HighCard (getHoleCards q) 0 0 []
            \<or> evaluateHand (take 5 (getHoleCards q @ communityCards t)) = Inr h"
        using assms Cons Nil sp
        by (auto simp: determineWinners_def Let_def split: if_splits sum.splits)
      then show ?thesis
        using evaluateHand_cardValued by (auto simp: new_HandRanking_def cardValued_def)
    next
      case (Cons sp2 rest2)
      let ?sorted = "\<lambda>playerHands. sortBy (\<lambda>a b. compareTo (snd (snd b)) (snd (snd a))) playerHands"
      have two: "?players = sp # sp2 # rest2" using \<open>?players = sp # rest\<close> Cons by simp
      have dw: "determineWinners t =
                  (case evaluatePlayers (communityCards t) ?players of
                     Inl e \<Rightarrow> Inl e
                   | Inr playerHands \<Rightarrow>
                       (case ?sorted playerHands of [] \<Rightarrow> Inr []
                        | best # _ \<Rightarrow>
                            Inr (filter (\<lambda>ph. compareTo (snd (snd ph)) (snd (snd best)) = 0)
                                   (?sorted playerHands))))"
        unfolding determineWinners_def Let_def two by (cases sp) simp
      from assms(1) dw obtain playerHands where
          e: "evaluatePlayers (communityCards t) ?players = Inr playerHands"
        by (cases "evaluatePlayers (communityCards t) ?players") auto
      have w: "set ws \<subseteq> set (?sorted playerHands)"
        using assms(1) dw e by (cases "?sorted playerHands") (auto simp del: filter.simps)
      then have "(seat, p, h) \<in> set playerHands" using assms(2) by (auto simp: set_sortBy)
      then show ?thesis using evaluatePlayers_cardValued[OF e] by blast
    qed
  qed
qed

text \<open>
  Claim C7. For all hand rankings \<open>A\<close>, \<open>B\<close>, \<open>C\<close>: the sign of \<open>A.compareTo(B)\<close>
  is minus the sign of \<open>B.compareTo(A)\<close>; the induced order is transitive, strictly and
  weakly; and \<open>compareTo\<close> returns 0 only when category, primaryValue, secondaryValue
  and kickers all match exactly, and does return 0 then. The last part is about
  rankings whose kickers are what the data model says, values of cards: it needs no more
  than that no kicker is 0. All rankings built anywhere in the code are such
  (\<open>evaluated_cardValued\<close>, \<open>determineWinners_cardValued\<close>).
\<close>

theorem compareTo_total_order:
  "sgn (compareTo A B) = - sgn (compareTo B A)
   \<and> (compareTo A B < 0 \<and> compareTo B C < 0 \<longrightarrow> compareTo A C < 0)
   \<and> (compareTo A B \<le> 0 \<and> compareTo B C \<le> 0 \<longrightarrow> compareTo A C \<le> 0)
   \<and> (0 \<notin> set (kickers A) \<and> 0 \<notin> set (kickers B) \<longrightarrow>
        (compareTo A B = 0 \<longleftrightarrow>
           handRank A = handRank B \<and> primaryValue A = primaryValue B
           \<and> secondaryValue A = secondaryValue B \<and> kickers A = kickers B))"
proof (intro conjI impI)
  show "sgn (compareTo A B) = - sgn (compareTo B A)"
    using compareTo_flip[of B A] by simp
  show "compareTo A C < 0" if "compareTo A B < 0 \<and> compareTo B C < 0"
    using that handBelow_trans by (simp add: compareTo_neg) blast
  show "compareTo A C \<le> 0" if h: "compareTo A B \<le> 0 \<and> compareTo B C \<le> 0"
  proof -
    have ab: "handBelow A B \<or> handTied A B" and bc: "handBelow B C \<or> handTied B C"
      using h by (auto simp: compareTo_neg[symmetric] compareTo_zero[symmetric])
    then have "handBelow A C \<or> handTied A C"
      using handBelow_trans handBelow_tied handTied_below handTied_trans by blast
    then show ?thesis by (auto simp: compareTo_neg[symmetric] compareTo_zero[symmetric])
  qed
  show "compareTo A B = 0 \<longleftrightarrow>
           handRank A = handRank B \<and> primaryValue A = primaryValue B
           \<and> secondaryValue A = secondaryValue B \<and> kickers A = kickers B"
    if "0 \<notin> set (kickers A) \<and> 0 \<notin> set (kickers B)"
    using that compareTo_zero_exact[of A B] by blast
qed

theorem compareTo_total_order_witness:
  "compareTo \<lparr>handRank = OnePair, cards = [], primaryValue = 13, secondaryValue = 0, kickers = [12, 11, 10]\<rparr>
             \<lparr>handRank = OnePair, cards = [], primaryValue = 14, secondaryValue = 0, kickers = [12, 11, 10]\<rparr> < 0
   \<and> compareTo \<lparr>handRank = OnePair, cards = [], primaryValue = 14, secondaryValue = 0, kickers = [12, 11, 10]\<rparr>
               \<lparr>handRank = OnePair, cards = [], primaryValue = 14, secondaryValue = 0, kickers = [13, 12, 11]\<rparr> < 0
   \<and> compareTo \<lparr>handRank = OnePair, cards = [], primaryValue = 13, secondaryValue = 0, kickers = [12, 11, 10]\<rparr>
               \<lparr>handRank = OnePair, cards = [], primaryValue = 14, secondaryValue = 0, kickers = [13, 12, 11]\<rparr> < 0
   \<and> sgn (compareTo \<lparr>handRank = OnePair, cards = [], primaryValue = 13, secondaryValue = 0, kickers = [12, 11, 10]\<rparr>
               \<lparr>handRank = OnePair, cards = [], primaryValue = 14, secondaryValue = 0, kickers = [12, 11, 10]\<rparr>)
     = - sgn (compareTo \<lparr>handRank = OnePair, cards = [], primaryValue = 14, secondaryValue = 0, kickers = [12, 11, 10]\<rparr>
               \<lparr>handRank = OnePair, cards = [], primaryValue = 13, secondaryValue = 0, kickers = [12, 11, 10]\<rparr>)
   \<and> 0 \<notin> set (kickers \<lparr>handRank = OnePair, cards = [], primaryValue = 14, secondaryValue = 0, kickers = [12, 11, 10]\<rparr>)
   \<and> 0 \<notin> set (kickers \<lparr>handRank = OnePair, cards = [\<lparr>rank = Ace, suit = Spades\<rparr>], primaryValue = 14, secondaryValue = 0, kickers = [12, 11, 10]\<rparr>)
   \<and> compareTo \<lparr>handRank = OnePair, cards = [], primaryValue = 14, secondaryValue = 0, kickers = [12, 11, 10]\<rparr>
               \<lparr>handRank = OnePair, cards = [\<lparr>rank = Ace, suit = Spades\<rparr>], primaryValue = 14, secondaryValue = 0, kickers = [12, 11, 10]\<rparr> = 0
   \<and> compareTo \<lparr>handRank = OnePair, cards = [], primaryValue = 14, secondaryValue = 0, kickers = [12, 11, 10]\<rparr>
               \<lparr>handRank = OnePair, cards = [], primaryValue = 14, secondaryValue = 0, kickers = [12, 11]\<rparr> \<noteq> 0"
  using compareTo_total_order
    [of "\<lparr>handRank = OnePair, cards = [], primaryValue = 13, secondaryValue = 0, kickers = [12, 11, 10]\<rparr>"
        "\<lparr>handRank = OnePair, cards = [], primaryValue = 14, secondaryValue = 0, kickers = [12, 11, 10]\<rparr>"
        "\<lparr>handRank = OnePair, cards = [], primaryValue = 14, secondaryValue = 0, kickers = [13, 12, 11]\<rparr>"]
    compareTo_total_order
    [of "\<lparr>handRank = OnePair, cards = [], primaryValue = 14, secondaryValue = 0, kickers = [12, 11, 10]\<rparr>"
        "\<lparr>handRank = OnePair, cards = [\<lparr>rank = Ace, suit = Spades\<rparr>], primaryValue = 14, secondaryValue = 0, kickers = [12, 11, 10]\<rparr>"
        "\<lparr>handRank = OnePair, cards = [], primaryValue = 14, secondaryValue = 0, kickers = [13, 12, 11]\<rparr>"]
    compareTo_total_order
    [of "\<lparr>handRank = OnePair, cards = [], primaryValue = 14, secondaryValue = 0, kickers = [12, 11, 10]\<rparr>"
        "\<lparr>handRank = OnePair, cards = [], primaryValue = 14, secondaryValue = 0, kickers = [12, 11]\<rparr>"
        "\<lparr>handRank = OnePair, cards = [], primaryValue = 14, secondaryValue = 0, kickers = [13, 12, 11]\<rparr>"]
  by (simp add: compareTo_def kickerAt_def)

text \<open>
  The hypothesis on the kickers is there because \<open>compareTo\<close> reads a missing kicker as
  0 (\<open>kickers[i] ?? 0\<close>): an array that ends and an array that goes on with the kicker 0
  compare the same. No ranking built by the code has a kicker 0, so this never decides a
  comparison that the program makes.
\<close>

lemma compareTo_reads_missing_kicker_as_zero:
  "compareTo \<lparr>handRank = HighCard, cards = [], primaryValue = 0, secondaryValue = 0, kickers = []\<rparr>
             \<lparr>handRank = HighCard, cards = [], primaryValue = 0, secondaryValue = 0, kickers = [0]\<rparr> = 0"
  by (simp add: compareTo_def kickerAt_def)


section \<open>Properties of the state machine\<close>

lemma isValidTransition_spec: "isValidTransition a b \<longleftrightarrow> specTransition a b"
  by (cases a; cases b;
      simp add: isValidTransition_def specTransition_def specLinearPath_def specBettingStates_def)

text \<open>
  Claim C3. The state machine permits exactly the transitions of the specification's
  graph; \<open>setState\<close> performs a transition of the graph, and for every other ordered
  pair of states it throws the invalid-state-transition error and leaves the manager,
  hence \<open>currentState\<close>, unchanged. Nothing leads out of GameOver.
\<close>

theorem setState_follows_graph:
  "(isValidTransition a b \<longleftrightarrow> specTransition a b)
   \<and> (specTransition (currentState hm) newState \<longrightarrow>
        setState hm newState = (None, hm\<lparr>currentState := newState\<rparr>))
   \<and> (\<not> specTransition (currentState hm) newState \<longrightarrow>
        setState hm newState = (Some (InvalidStateTransition (currentState hm) newState), hm))
   \<and> (\<forall>to. \<not> specTransition GameOver to)"
  by (simp add: isValidTransition_spec[symmetric] setState_def isValidTransition_def)

theorem setState_follows_graph_witness:
  "\<not> specTransition (currentState lonePlayerManager) Showdown
   \<and> setState lonePlayerManager Showdown
       = (Some (InvalidStateTransition ReadyToStart Showdown), lonePlayerManager)
   \<and> specTransition (currentState lonePlayerManager) PostingBlinds
   \<and> setState lonePlayerManager PostingBlinds
       = (None, lonePlayerManager\<lparr>currentState := PostingBlinds\<rparr>)"
  using setState_follows_graph[of ReadyToStart Showdown lonePlayerManager Showdown]
        setState_follows_graph[of ReadyToStart PostingBlinds lonePlayerManager PostingBlinds]
  by (simp add: lonePlayerManager_def new_HandManager_def specTransition_def
        specLinearPath_def specBettingStates_def)

section \<open>Properties of startHand\<close>

lemma length_shuffleFrom: "length (shuffleFrom rnd n cs) = length cs"
  by (induction n arbitrary: cs) (simp_all add: Let_def)

lemma length_fullDeck: "length fullDeck = 52"
  by (simp add: fullDeck_def)

lemma resetForNewHand_fields:
  "holeCards (resetForNewHand p) = [] \<and> currentBet (resetForNewHand p) = 0
   \<and> lastAction (resetForNewHand p) = None
   \<and> status (resetForNewHand p) \<noteq> Folded \<and> status (resetForNewHand p) \<noteq> AllIn"
  by (simp add: resetForNewHand_def Let_def)

lemma in_map_filter: "y \<in> set (List.map_filter f xs) \<longleftrightarrow> (\<exists>x \<in> set xs. f x = Some y)"
  by (induction xs) (auto simp: map_filter_simps split: option.splits)

lemma in_occupiedSeats:
  "(i, p) \<in> set (occupiedSeats t) \<longleftrightarrow> i < length (seats t) \<and> seats t ! i = Some p"
  unfolding occupiedSeats_def in_map_filter by (auto split: option.splits)

lemma set_getPlayers: "set (getPlayers t) = {p. Some p \<in> set (seats t)}"
proof -
  have "p \<in> set (getPlayers t) \<longleftrightarrow> Some p \<in> set (seats t)" for p
  proof -
    have "p \<in> set (getPlayers t) \<longleftrightarrow> (\<exists>i. (i, p) \<in> set (occupiedSeats t))"
      by (force simp: getPlayers_def)
    also have "\<dots> \<longleftrightarrow> Some p \<in> set (seats t)"
      unfolding in_occupiedSeats by (metis in_set_conv_nth)
    finally show ?thesis .
  qed
  then show ?thesis by blast
qed

text \<open>
  Claim C8. \<open>startHand\<close> is not atomic on failure: called in state ReadyToStart with
  fewer than 2 active players once the table is reset, it throws, and by then the hand
  number is incremented, the deck is reset and shuffled (52 cards, none dealt), and every
  seated player is reset for a new hand; \<open>currentState\<close> is still ReadyToStart.
\<close>

theorem startHand_not_atomic:
  assumes "currentState hm = ReadyToStart"
      and "length (getActivePlayers (table_resetForNewHand (table hm))) < 2"
  shows "\<exists>hm'. startHand rnd hm = (Some NeedAtLeastTwoPlayersToStartHand, hm')
           \<and> handNumber hm' = handNumber hm + 1
           \<and> currentState hm' = ReadyToStart
           \<and> table hm' = table_resetForNewHand (table hm)
           \<and> deck hm' = deck_shuffle rnd (deck_reset (deck hm))
           \<and> length (deckCards (deck hm')) = 52 \<and> dealtCards (deck hm') = []
           \<and> communityCards (table hm') = []
           \<and> (\<forall>p \<in> set (getPlayers (table hm')).
                 holeCards p = [] \<and> currentBet p = 0 \<and> lastAction p = None
                 \<and> status p \<noteq> Folded \<and> status p \<noteq> AllIn)"
proof -
  let ?hm' = "hm\<lparr>handNumber := handNumber hm + 1,
                  deck := deck_shuffle rnd (deck_reset (deck hm)),
                  table := table_resetForNewHand (table hm)\<rparr>"
  have run: "startHand rnd hm = (Some NeedAtLeastTwoPlayersToStartHand, ?hm')"
    using assms by (simp add: startHand_def dealer_prepareNewHand_def Let_def)
  have cards: "length (deckCards (deck ?hm')) = 52" "dealtCards (deck ?hm') = []"
    by (simp_all add: deck_shuffle_def deck_reset_def length_shuffleFrom length_fullDeck)
  have players: "\<forall>p \<in> set (getPlayers (table ?hm')).
                 holeCards p = [] \<and> currentBet p = 0 \<and> lastAction p = None
                 \<and> status p \<noteq> Folded \<and> status p \<noteq> AllIn"
  proof
    fix p assume "p \<in> set (getPlayers (table ?hm'))"
    then have "Some p \<in> set (map (map_option resetForNewHand) (seats (table hm)))"
      by (simp add: set_getPlayers table_resetForNewHand_def)
    then obtain x where "Some p = map_option resetForNewHand x" by auto
    then obtain q where "p = resetForNewHand q" by (cases x) auto
    then show "holeCards p = [] \<and> currentBet p = 0 \<and> lastAction p = None
                 \<and> status p \<noteq> Folded \<and> status p \<noteq> AllIn"
      using resetForNewHand_fields by simp
  qed
  show ?thesis
    using run cards players assms(1) by (intro exI[of _ ?hm']) (simp add: table_resetForNewHand_def)
qed


theorem startHand_not_atomic_witness:
  "currentState lonePlayerManager = ReadyToStart
   \<and> length (getActivePlayers (table_resetForNewHand (table lonePlayerManager))) < 2
   \<and> (\<exists>hm'. startHand (\<lambda>i. i) lonePlayerManager = (Some NeedAtLeastTwoPlayersToStartHand, hm')
          \<and> handNumber hm' = 4 \<and> currentState hm' = ReadyToStart
          \<and> length (deckCards (deck hm')) = 52 \<and> dealtCards (deck hm') = [])"
proof -
  have a: "currentState lonePlayerManager = ReadyToStart"
    by (simp add: lonePlayerManager_def)
  have b: "length (getActivePlayers (table_resetForNewHand (table lonePlayerManager))) < 2"
    unfolding lonePlayerManager_def by code_simp
  have n: "handNumber lonePlayerManager = 3"
    by (simp add: lonePlayerManager_def)
  from startHand_not_atomic[OF a b, of "\<lambda>i. i"] obtain hm' where
    "startHand (\<lambda>i. i) lonePlayerManager = (Some NeedAtLeastTwoPlayersToStartHand, hm')"
    "handNumber hm' = handNumber lonePlayerManager + 1" "currentState hm' = ReadyToStart"
    "length (deckCards (deck hm')) = 52" "dealtCards (deck hm') = []"
    by blast
  then show ?thesis using a b n by auto
qed

section \<open>Properties of the preflop starting bet\<close>

























section \<open>The side pot scenario\<close>

text \<open>
  Claim C1, evaluated on the code. For the contributions p1: 50 (all-in), p2: 200,
  p3: 200, \<open>collectBets\<close> builds a main pot of 150 with all three players eligible and
  one side pot of 300 with p2 and p3 eligible. At showdown with p1 holding the best hand,
  \<open>determineWinners\<close> names p1 alone, so the payout gives p1 exactly 150, and nobody is
  paid from the side pot: p2 and p3 keep the chips they had, and 300 of the 450 collected
  remain in the side pot.
\<close>

theorem side_pot_scenario:
  "collectBets new_PotManager [(''p1'', 50), (''p2'', 200), (''p3'', 200)] [''p1''] []
     = Inr \<lparr>mainPot = \<lparr>contributions = [(''p1'', 50), (''p2'', 50), (''p3'', 50)],
                        eligiblePlayerIds = [''p1'', ''p2'', ''p3'']\<rparr>,
            sidePots = [\<lparr>contributions = [(''p2'', 150), (''p3'', 150)],
                         eligiblePlayerIds = [''p2'', ''p3'']\<rparr>]\<rparr>
   \<and> pot_total \<lparr>contributions = [(''p1'', 50), (''p2'', 50), (''p3'', 50)],
                 eligiblePlayerIds = [''p1'', ''p2'', ''p3'']\<rparr> = 150
   \<and> pot_total \<lparr>contributions = [(''p2'', 150), (''p3'', 150)],
                 eligiblePlayerIds = [''p2'', ''p3'']\<rparr> = 300
   \<and> map_sum id (map (\<lambda>(seat, p, h). (player_id p, handRank h, primaryValue h)))
        (determineWinners showdownTable) = Inr [(''p1'', OnePair, 14)]
   \<and> map_sum id (\<lambda>(results, t').
          (map (\<lambda>r. (player_id (winnerPlayer r), amountWon r)) results,
           map (map_option (\<lambda>p. (player_id p, chipCount p))) (seats t')))
        (dealer_distributePots showdownTable
           \<lparr>mainPot = \<lparr>contributions = [(''p1'', 50), (''p2'', 50), (''p3'', 50)],
                        eligiblePlayerIds = [''p1'', ''p2'', ''p3'']\<rparr>,
            sidePots = [\<lparr>contributions = [(''p2'', 150), (''p3'', 150)],
                         eligiblePlayerIds = [''p2'', ''p3'']\<rparr>]\<rparr>)
       = Inr ([(''p1'', 150)],
              [Some (''p1'', 150), Some (''p2'', 800), Some (''p3'', 800)])
   \<and> distributePots
        \<lparr>mainPot = \<lparr>contributions = [(''p1'', 50), (''p2'', 50), (''p3'', 50)],
                     eligiblePlayerIds = [''p1'', ''p2'', ''p3'']\<rparr>,
         sidePots = [\<lparr>contributions = [(''p2'', 150), (''p3'', 150)],
                      eligiblePlayerIds = [''p2'', ''p3'']\<rparr>]\<rparr> [''p1'']
       = [(''p1'', 150)]"
  unfolding showdownTable_def
  by code_simp

end
